theory Spec2Isabelle
  imports Main
begin

section \<open>JavaScript values\<close>

text \<open>
  The importer works on the value that \<^verbatim>\<open>JSON.parse\<close> (or the YAML loader) returns.
  Such a value is \<^verbatim>\<open>null\<close>, a boolean, a number, a string, an array or an object;
  \<^verbatim>\<open>undefined\<close> is what reading an absent property gives. Strings are lists of
  code units below 256. Numbers are the integers; where this program prints one, the
  decimal numeral is what the engine prints for every integer of magnitude below
  \<open>10\<^sup>2\<^sup>1\<close>. An object is the list of its own properties in the order of their creation,
  with pairwise distinct keys, none of them \<^verbatim>\<open>__proto__\<close>.
\<close>

datatype json =
    JUndefined
  | JNull
  | JBool bool
  | JNum int
  | JStr string
  | JArr "json list"
  | JObj "(string \<times> json) list"

type_synonym obj = "(string \<times> json) list"

text \<open>The exceptions the engine raises in this program; every one of them is caught at
  line 332 of the source.\<close>

datatype error = TypeError | RangeError

text \<open>\<^verbatim>\<open>!!v\<close>: the truthiness of a value.\<close>

fun truthy :: "json \<Rightarrow> bool" where
  "truthy JUndefined = False"
| "truthy JNull = False"
| "truthy (JBool b) = b"
| "truthy (JNum n) = (n \<noteq> 0)"
| "truthy (JStr s) = (s \<noteq> [])"
| "truthy (JArr xs) = True"
| "truthy (JObj kvs) = True"

text \<open>\<^verbatim>\<open>a === b\<close>. Primitives are compared by value. Arrays and objects are compared by
  reference, and two values read from different places of a parsed JSON document are never
  the same reference.\<close>

fun strict_eq :: "json \<Rightarrow> json \<Rightarrow> bool" where
  "strict_eq JUndefined JUndefined = True"
| "strict_eq JNull JNull = True"
| "strict_eq (JBool a) (JBool b) = (a = b)"
| "strict_eq (JNum a) (JNum b) = (a = b)"
| "strict_eq (JStr a) (JStr b) = (a = b)"
| "strict_eq a b = False"

text \<open>\<^verbatim>\<open>o.k\<close> on an object: the own property, or \<^verbatim>\<open>undefined\<close>.\<close>

definition fld :: "obj \<Rightarrow> string \<Rightarrow> json" where
  "fld ob k = (case map_of ob k of Some v \<Rightarrow> v | None \<Rightarrow> JUndefined)"

text \<open>\<^verbatim>\<open>v.k\<close> on any value, for the property names this program reads (none of them is
  inherited from a prototype): reading a property of \<^verbatim>\<open>null\<close> or \<^verbatim>\<open>undefined\<close>
  raises, a primitive or an array has no such property.\<close>

fun js_prop :: "json \<Rightarrow> string \<Rightarrow> error + json" where
  "js_prop JUndefined k = Inl TypeError"
| "js_prop JNull k = Inl TypeError"
| "js_prop (JObj kvs) k = Inr (fld kvs k)"
| "js_prop v k = Inr JUndefined"

text \<open>lodash \<^verbatim>\<open>get(object, path, defaultValue)\<close> with a path written as a string. The
  path is taken as one key when the object has a property of that very name, and is split
  at its dots otherwise (no path of this program has brackets). The walk stops at
  \<^verbatim>\<open>null\<close> and \<^verbatim>\<open>undefined\<close>; the default replaces only an \<^verbatim>\<open>undefined\<close> result.\<close>

definition stringToPath :: "string \<Rightarrow> string list" where
  "stringToPath path =
     foldr (\<lambda>c segments. if c = CHR ''.'' then [] # segments
                          else (c # hd segments) # tl segments) path [[]]"

definition castPath :: "string \<Rightarrow> json \<Rightarrow> string list" where
  "castPath path v =
     (case v of
        JObj kvs \<Rightarrow> if path \<in> set (map fst kvs) then [path] else stringToPath path
      | _ \<Rightarrow> stringToPath path)"

fun walk :: "json \<Rightarrow> string list \<Rightarrow> json" where
  "walk v [] = v"
| "walk v (k # ks) =
     (case js_prop v k of Inl e \<Rightarrow> JUndefined | Inr w \<Rightarrow> walk w ks)"

definition baseGet :: "json \<Rightarrow> string \<Rightarrow> json" where
  "baseGet v path = (let keys = castPath path v in if keys = [] then JUndefined else walk v keys)"

definition get :: "json \<Rightarrow> string \<Rightarrow> json \<Rightarrow> json" where
  "get v path defaultValue =
     (let result = baseGet v path
      in if result = JUndefined then defaultValue else result)"

subsection \<open>Numbers and values as text\<close>

definition digit_char :: "nat \<Rightarrow> char" where
  "digit_char d = ''0123456789'' ! d"

fun string_of_nat :: "nat \<Rightarrow> string" where
  "string_of_nat n =
     (if n < 10 then [digit_char n] else string_of_nat (n div 10) @ [digit_char (n mod 10)])"

declare string_of_nat.simps [simp del]

definition string_of_int :: "int \<Rightarrow> string" where
  "string_of_int i = (if i < 0 then CHR ''-'' # string_of_nat (nat (- i)) else string_of_nat (nat i))"

text \<open>\<^verbatim>\<open>String(v)\<close>, the conversion a template literal applies. An array is joined with
  commas, \<^verbatim>\<open>null\<close> and \<^verbatim>\<open>undefined\<close> elements printing as nothing. An object prints through
  \<^verbatim>\<open>Object.prototype.toString\<close> unless it has an own \<^verbatim>\<open>toString\<close> property, which in a
  parsed document is never a function.\<close>

fun js_String :: "json \<Rightarrow> error + string"
  and js_join :: "json list \<Rightarrow> error + string" where
  "js_String JUndefined = Inr ''undefined''"
| "js_String JNull = Inr ''null''"
| "js_String (JBool b) = Inr (if b then ''true'' else ''false'')"
| "js_String (JNum i) = Inr (string_of_int i)"
| "js_String (JStr s) = Inr s"
| "js_String (JArr xs) = js_join xs"
| "js_String (JObj kvs) =
     (if ''toString'' \<in> set (map fst kvs) then Inl TypeError else Inr ''[object Object]'')"
| "js_join [] = Inr []"
| "js_join (x # xs) =
     (case (if x = JUndefined \<or> x = JNull then Inr [] else js_String x) of
        Inl e \<Rightarrow> Inl e
      | Inr s \<Rightarrow>
          (if xs = [] then Inr s
           else (case js_join xs of Inl e \<Rightarrow> Inl e | Inr t \<Rightarrow> Inr (s @ '','' @ t))))"

text \<open>\<^verbatim>\<open>v.toString()\<close>: a method call, so it raises on \<^verbatim>\<open>null\<close> and \<^verbatim>\<open>undefined\<close>.\<close>

definition toString :: "json \<Rightarrow> error + string" where
  "toString v = (if v = JUndefined \<or> v = JNull then Inl TypeError else js_String v)"

section \<open>Regular expressions and string replacement\<close>

text \<open>The character classes of the three patterns: \<^verbatim>\<open>\s\<close> (white space and line
  terminators below 256) and the line terminators, which \<^verbatim>\<open>.\<close> does not match.\<close>

definition is_space :: "char \<Rightarrow> bool" where
  "is_space c = (c \<in> set [CHR 0x09, CHR 0x0A, CHR 0x0B, CHR 0x0C, CHR 0x0D, CHR 0x20, CHR 0xA0])"

definition is_line_terminator :: "char \<Rightarrow> bool" where
  "is_line_terminator c = (c = CHR 0x0A \<or> c = CHR 0x0D)"

definition starts_with :: "string \<Rightarrow> string \<Rightarrow> bool" where
  "starts_with p s = (take (length p) s = p)"

text \<open>\<^verbatim>\<open>.*?}}\<close> tried at the text after an opening \<^verbatim>\<open>{{\<close>: the lazy star first tries to
  close, and otherwise takes one more character that is not a line terminator. The result is
  the length of the match, the closing braces included.\<close>

fun span_end :: "string \<Rightarrow> nat option" where
  "span_end [] = None"
| "span_end (c # cs) =
     (if starts_with ''}}'' (c # cs) then Some 2
      else if is_line_terminator c then None
      else map_option Suc (span_end cs))"

text \<open>\<^verbatim>\<open>value.match(regexVariable) || []\<close> with \<^verbatim>\<open>regexVariable = /{{.*?}}/g\<close>: all
  matches, leftmost first, each search starting where the previous match ended.\<close>

function regexVariable_match :: "string \<Rightarrow> string list" where
  "regexVariable_match s =
     (if s = [] then []
      else if starts_with ''{{'' s then
        (case span_end (drop 2 s) of
           Some k \<Rightarrow> take (2 + k) s # regexVariable_match (drop (2 + k) s)
         | None \<Rightarrow> regexVariable_match (tl s))
      else regexVariable_match (tl s))"
  by pat_completeness auto
termination
  by (relation "measure length") (auto simp: neq_Nil_conv)

declare regexVariable_match.simps [simp del]

text \<open>\<^verbatim>\<open>s.replaceAll(regexToRemove, '')\<close> with
  \<^verbatim>\<open>regexToRemove = /(?:_\.|[\s\]]+)/g\<close>: at each position the first alternative, an
  underscore followed by a dot, is tried before the second, a run of white space and closing
  brackets.\<close>

definition removable :: "char \<Rightarrow> bool" where
  "removable c = (is_space c \<or> c = CHR '']'')"

function regexToRemove_replaceAll :: "string \<Rightarrow> string" where
  "regexToRemove_replaceAll s =
     (if s = [] then []
      else if starts_with ''_.'' s then regexToRemove_replaceAll (drop 2 s)
      else if removable (hd s) then regexToRemove_replaceAll (dropWhile removable (tl s))
      else hd s # regexToRemove_replaceAll (tl s))"
  by pat_completeness auto
termination
proof (relation "measure length")
  fix s :: string
  assume "s \<noteq> []" "\<not> starts_with ''_.'' s" "removable (hd s)"
  have "length (dropWhile removable (tl s)) \<le> length (tl s)"
    by (rule length_dropWhile_le)
  with \<open>s \<noteq> []\<close> show "(dropWhile removable (tl s), s) \<in> measure length"
    by (cases s) auto
qed (auto simp: neq_Nil_conv)

declare regexToRemove_replaceAll.simps [simp del]

text \<open>\<^verbatim>\<open>s.replaceAll(regexToUnderscore, '_')\<close> with \<^verbatim>\<open>regexToUnderscore = /[.\[]/g\<close>.\<close>

definition regexToUnderscore_replaceAll :: "string \<Rightarrow> string" where
  "regexToUnderscore_replaceAll s =
     map (\<lambda>c. if c = CHR ''.'' \<or> c = CHR ''['' then CHR ''_'' else c) s"

text \<open>The replacement text of \<^verbatim>\<open>String.prototype.replaceAll\<close> is a template: the engine's
  \<^verbatim>\<open>GetSubstitution\<close> expands \<^verbatim>\<open>$$\<close> to a dollar sign, \<^verbatim>\<open>$&\<close> to the matched text,
  \<^verbatim>\<open>$`\<close> to the text before the match and \<^verbatim>\<open>$'\<close> to the text after it. A search for a
  string has no capture groups, so any other dollar sign stands for itself.\<close>

fun getSubstitution :: "string \<Rightarrow> string \<Rightarrow> string \<Rightarrow> string \<Rightarrow> string" where
  "getSubstitution matched preceding following [] = []"
| "getSubstitution matched preceding following [c] = [c]"
| "getSubstitution matched preceding following (c # d # t) =
     (if c = CHR ''$'' \<and> d = CHR ''$'' then CHR ''$'' # getSubstitution matched preceding following t
      else if c = CHR ''$'' \<and> d = CHR ''&'' then matched @ getSubstitution matched preceding following t
      else if c = CHR ''$'' \<and> d = CHR 0x60 then preceding @ getSubstitution matched preceding following t
      else if c = CHR ''$'' \<and> d = CHR 0x27 then following @ getSubstitution matched preceding following t
      else c # getSubstitution matched preceding following (d # t))"

text \<open>\<^verbatim>\<open>s.replaceAll(searchString, replaceValue)\<close> with a search string: the
  occurrences are found from left to right without overlap, and each is replaced by the
  expanded template. The third argument is the part of the subject already passed. The
  search strings of this program are matches of \<^verbatim>\<open>regexVariable\<close>, which are never
  empty; an empty search string is left without effect here.\<close>

function replaceAll_from :: "string \<Rightarrow> string \<Rightarrow> string \<Rightarrow> string \<Rightarrow> string" where
  "replaceAll_from searchString replaceValue preceding s =
     (if s = [] \<or> searchString = [] then s
      else if starts_with searchString s then
        getSubstitution searchString preceding (drop (length searchString) s) replaceValue
          @ replaceAll_from searchString replaceValue (preceding @ searchString)
              (drop (length searchString) s)
      else hd s # replaceAll_from searchString replaceValue (preceding @ [hd s]) (tl s))"
  by pat_completeness auto
termination
  by (relation "measure (\<lambda>(p, r, b, s). length s)") (auto simp: neq_Nil_conv)

declare replaceAll_from.simps [simp del]

definition replaceAll :: "string \<Rightarrow> string \<Rightarrow> string \<Rightarrow> string" where
  "replaceAll s searchString replaceValue = replaceAll_from searchString replaceValue [] s"

section \<open>The variable rewriter\<close>

text \<open>Source lines 113 to 124. The inner expression of line 121, the rewritten form of one
  matched variable:\<close>

definition rewriteVariable :: "string \<Rightarrow> string" where
  "rewriteVariable variable = regexToUnderscore_replaceAll (regexToRemove_replaceAll variable)"

text \<open>The loop of lines 120 to 122 on a string: for every match of the original text, in
  order, every occurrence of the matched text in the current value is replaced.\<close>

definition normalizeText :: "string \<Rightarrow> string" where
  "normalizeText s =
     foldl (\<lambda>value variable. replaceAll value variable (rewriteVariable variable))
       s (regexVariable_match s)"

text \<open>\<^verbatim>\<open>normalizeVariables(value)\<close>: a falsy argument becomes the empty string; a truthy
  value that is not a string has no \<^verbatim>\<open>match\<close> method, and the call raises.\<close>

definition normalizeVariables :: "json \<Rightarrow> error + string" where
  "normalizeVariables v =
     (case (if truthy v then v else JStr []) of
        JStr s \<Rightarrow> Inr (normalizeText s)
      | _ \<Rightarrow> Inl TypeError)"

section \<open>Objects and collections\<close>

text \<open>The order in which the engine lists the own properties of an object: the keys that
  are array indices first, in ascending numeric order, then the other keys in the order of
  their creation.\<close>

definition is_digit :: "char \<Rightarrow> bool" where
  "is_digit c = (c \<in> set ''0123456789'')"

definition nat_of_string :: "string \<Rightarrow> nat" where
  "nat_of_string s = foldl (\<lambda>n c. 10 * n + (of_char c - 48)) 0 s"

definition is_array_index :: "string \<Rightarrow> bool" where
  "is_array_index k =
     (k \<noteq> [] \<and> list_all is_digit k \<and> (k = ''0'' \<or> hd k \<noteq> CHR ''0'')
      \<and> nat_of_string k < 4294967295)"

definition own_entries :: "obj \<Rightarrow> (string \<times> json) list" where
  "own_entries kvs =
     sort_key (\<lambda>(k, v). nat_of_string k) (filter (\<lambda>(k, v). is_array_index k) kvs)
       @ filter (\<lambda>(k, v). \<not> is_array_index k) kvs"

text \<open>\<^verbatim>\<open>Object.entries(v)\<close> (and \<^verbatim>\<open>Object.keys(v)\<close>, its first components): an array
  and a string list their indices, a number or a boolean has no own property.\<close>

fun js_entries :: "json \<Rightarrow> (string \<times> json) list" where
  "js_entries (JObj kvs) = own_entries kvs"
| "js_entries (JArr xs) = zip (map string_of_nat [0..<length xs]) xs"
| "js_entries (JStr s) = zip (map string_of_nat [0..<length s]) (map (\<lambda>c. JStr [c]) s)"
| "js_entries v = []"

text \<open>\<^verbatim>\<open>output[key] = value\<close> on an object: an existing property keeps its place.\<close>

fun assign :: "obj \<Rightarrow> string \<Rightarrow> json \<Rightarrow> obj" where
  "assign [] k v = [(k, v)]"
| "assign ((k', v') # kvs) k v = (if k' = k then (k, v) # kvs else (k', v') # assign kvs k v)"

text \<open>lodash \<^verbatim>\<open>each(collection, iteratee)\<close>: the values the iteratee is called with, in
  order. An array gives its elements and a string its characters; an object whose
  \<^verbatim>\<open>length\<close> is a natural number up to \<^verbatim>\<open>Number.MAX_SAFE_INTEGER\<close> is treated like
  an array; any other object gives the values of its own properties; nothing else is
  iterated. No iteratee of this program returns \<^verbatim>\<open>false\<close>, so no iteration stops early.\<close>

fun each_values :: "json \<Rightarrow> json list" where
  "each_values (JArr xs) = xs"
| "each_values (JStr s) = map (\<lambda>c. JStr [c]) s"
| "each_values (JObj kvs) =
     (case fld kvs ''length'' of
        JNum l \<Rightarrow>
          (if 0 \<le> l \<and> l \<le> 9007199254740991
           then map (\<lambda>i. fld kvs (string_of_nat i)) [0..<nat l]
           else map snd (own_entries kvs))
      | _ \<Rightarrow> map snd (own_entries kvs))"
| "each_values v = []"

subsection \<open>The flattening of nested data\<close>

text \<open>\<^verbatim>\<open>flatten(target, { delimiter: '_' })\<close> of the package \<^verbatim>\<open>flat\<close>, which is not part
  of this repository; the definition follows that package's documented algorithm. Every
  own property is visited in order; a non-empty object or array is entered with the key
  path so far, anything else is stored under its key path. An empty key path so far is
  falsy and is left out of the joined key.\<close>

definition is_container :: "json \<Rightarrow> bool" where
  "is_container v = (case v of JObj kvs \<Rightarrow> True | JArr xs \<Rightarrow> True | _ \<Rightarrow> False)"

lemma js_entries_size:
  "(k, v) \<in> set (js_entries ob) \<Longrightarrow> is_container v \<Longrightarrow> size v < size ob"
proof (cases ob)
  case (JObj kvs)
  assume "(k, v) \<in> set (js_entries ob)"
  with JObj have "(k, v) \<in> set kvs"
    by (auto simp: own_entries_def)
  then have "size v < Suc (size_list (size_prod (\<lambda>_. 0) size) kvs)"
    by (induction kvs) auto
  with JObj show ?thesis by simp
next
  case (JArr xs)
  assume "(k, v) \<in> set (js_entries ob)"
  with JArr have "v \<in> set xs"
    by (auto dest: set_zip_rightD)
  then have "size v < Suc (size_list size xs)"
    by (induction xs) auto
  with JArr show ?thesis by simp
next
  case (JStr s)
  assume "(k, v) \<in> set (js_entries ob)"
  with JStr have "v \<in> set (map (\<lambda>c. JStr [c]) s)"
    by (auto dest: set_zip_rightD)
  moreover assume "is_container v"
  ultimately show ?thesis
    by (auto simp: is_container_def)
qed auto

function flat_step :: "string \<Rightarrow> json \<Rightarrow> (string \<times> json) list" where
  "flat_step prev ob =
     concat (map (\<lambda>(key, v).
         (let newKey = (if prev \<noteq> [] then prev @ ''_'' @ key else key)
          in if is_container v \<and> js_entries v \<noteq> [] then flat_step newKey v
             else [(newKey, v)]))
       (js_entries ob))"
  by pat_completeness auto
termination
  by (relation "measure (\<lambda>(prev, ob). size ob)") (auto simp: js_entries_size)

declare flat_step.simps [simp del]

definition flatten :: "json \<Rightarrow> obj" where
  "flatten target = foldl (\<lambda>output (k, v). assign output k v) [] (flat_step [] target)"

section \<open>The target collection\<close>

text \<open>The objects the importer builds, field by field as the source's object literals
  write them. A \<^verbatim>\<open>null\<close> field is \<open>None\<close>. One record serves the header, parameter and
  form entries; \<open>kv_type\<close> is \<open>None\<close> where the literal has no \<^verbatim>\<open>type\<close> field.\<close>

record kv =
  kv_uid :: nat
  kv_name :: json
  kv_value :: json
  kv_description :: json
  kv_type :: "string option"
  kv_enabled :: bool

record basicAuth =
  username :: string
  password :: string

record bearerAuth =
  token :: string

record auth =
  auth_mode :: string
  basic :: "basicAuth option"
  bearer :: "bearerAuth option"
  digest :: "unit option"

record graphqlBody =
  query :: json
  variables :: json

record body =
  body_mode :: string
  body_json :: "string option"
  body_text :: "string option"
  body_xml :: "string option"
  formUrlEncoded :: "kv list"
  multipartForm :: "kv list"
  body_graphql :: "graphqlBody option"

record requestSpec =
  req_url :: string
  req_method :: json
  req_auth :: auth
  req_headers :: "kv list"
  req_params :: "kv list"
  req_body :: body

text \<open>A node of the tree: \<^verbatim>\<open>{uid, name, type: 'folder', items}\<close> or
  \<^verbatim>\<open>{uid, name, type, request}\<close>.\<close>

datatype item =
    Folder nat json "item list"
  | Request nat json string requestSpec

record variable =
  var_uid :: nat
  var_name :: string
  var_value :: string
  var_enabled :: bool
  var_secret :: bool
  var_type :: string

record environment =
  env_uid :: nat
  env_name :: json
  env_variables :: "variable list"

record collection =
  col_name :: json
  col_uid :: nat
  col_version :: string
  col_items :: "item list"
  col_environments :: "environment list"

section \<open>Computations that draw identifiers and may raise\<close>

text \<open>\<^verbatim>\<open>uuid()\<close> comes from \<^verbatim>\<open>utils/common\<close> and returns a fresh identifier at every
  call. The model draws the identifiers from a counter, which every computation takes and
  returns; an exception ends the computation.\<close>

type_synonym 'a gen = "nat \<Rightarrow> error + ('a \<times> nat)"

definition uuid :: "nat gen" where
  "uuid n = Inr (n, Suc n)"

definition ret :: "'a \<Rightarrow> 'a gen" where
  "ret x n = Inr (x, n)"

definition raise :: "error \<Rightarrow> 'a gen" where
  "raise e n = Inl e"

definition gen_bind :: "'a gen \<Rightarrow> ('a \<Rightarrow> 'b gen) \<Rightarrow> 'b gen" where
  "gen_bind m f n = (case m n of Inl e \<Rightarrow> Inl e | Inr (x, n') \<Rightarrow> f x n')"

text \<open>A computation that draws no identifier.\<close>

definition lift :: "error + 'a \<Rightarrow> 'a gen" where
  "lift r n = (case r of Inl e \<Rightarrow> Inl e | Inr x \<Rightarrow> Inr (x, n))"

definition ebind :: "error + 'a \<Rightarrow> ('a \<Rightarrow> error + 'b) \<Rightarrow> error + 'b" where
  "ebind r f = (case r of Inl e \<Rightarrow> Inl e | Inr x \<Rightarrow> f x)"

text \<open>\<^verbatim>\<open>xs.map(f)\<close>: the callback receives the element, its index and the whole array.\<close>

fun map_from :: "('a \<Rightarrow> nat \<Rightarrow> 'b gen) \<Rightarrow> nat \<Rightarrow> 'a list \<Rightarrow> 'b list gen" where
  "map_from f i [] = ret []"
| "map_from f i (x # xs) =
     gen_bind (f x i) (\<lambda>y. gen_bind (map_from f (Suc i) xs) (\<lambda>ys. ret (y # ys)))"

definition array_map :: "('a \<Rightarrow> nat \<Rightarrow> 'a list \<Rightarrow> 'b gen) \<Rightarrow> 'a list \<Rightarrow> 'b list gen" where
  "array_map f xs = map_from (\<lambda>x i. f x i xs) 0 xs"

text \<open>\<^verbatim>\<open>each(collection, v => list.push(f(v)))\<close>: the pushed values, in order.\<close>

definition each_push :: "(json \<Rightarrow> 'b gen) \<Rightarrow> json \<Rightarrow> 'b list gen" where
  "each_push f c = map_from (\<lambda>v i. f v) 0 (each_values c)"

text \<open>\<^verbatim>\<open>xs.reduce(f, init)\<close>.\<close>

fun reduce :: "('b \<Rightarrow> 'a \<Rightarrow> 'b gen) \<Rightarrow> 'a list \<Rightarrow> 'b \<Rightarrow> 'b gen" where
  "reduce f [] acc = ret acc"
| "reduce f (x # xs) acc = gen_bind (f acc x) (\<lambda>acc'. reduce f xs acc')"

section \<open>The naming de-duplicator\<close>

text \<open>Source lines 102 to 111. The template literal of line 110 is evaluated only when the
  count is not zero.\<close>

definition addSuffixToDuplicateName :: "obj \<Rightarrow> nat \<Rightarrow> obj list \<Rightarrow> error + json" where
  "addSuffixToDuplicateName item' index allItems =
     (let nameSuffix =
            foldl (\<lambda>nameSuffix (otherIndex, otherItem).
                if strict_eq (fld otherItem ''name'') (fld item' ''name'') \<and> otherIndex < index
                then nameSuffix + 1 else nameSuffix)
              (0::nat) (enumerate 0 allItems)
      in if nameSuffix \<noteq> 0
         then ebind (js_String (fld item' ''name''))
                (\<lambda>s. Inr (JStr (s @ ''_'' @ string_of_nat nameSuffix)))
         else Inr (fld item' ''name''))"

section \<open>The request transformer\<close>

text \<open>\<^verbatim>\<open>JSON.parse\<close> and \<^verbatim>\<open>JSON.stringify(v, null, 2)\<close> belong to the engine and are
  parameters of the model: \<open>JSON_parse\<close> gives \<open>None\<close> where the engine raises a syntax
  error.\<close>

record engine =
  JSON_parse :: "string \<Rightarrow> json option"
  JSON_stringify :: "json \<Rightarrow> json"

text \<open>Source lines 86 to 100. Reading \<^verbatim>\<open>graphql.query\<close> raises when the parsed text is
  \<^verbatim>\<open>null\<close>; the \<^verbatim>\<open>catch\<close> covers that as well.\<close>

definition parseGraphQL :: "engine \<Rightarrow> string \<Rightarrow> graphqlBody" where
  "parseGraphQL E text' =
     (case JSON_parse E text' of
        None \<Rightarrow> \<lparr>query = JStr [], variables = JStr []\<rparr>
      | Some graphql \<Rightarrow>
          (case ebind (js_prop graphql ''query'') (\<lambda>q.
                  ebind (js_prop graphql ''variables'') (\<lambda>v.
                    Inr \<lparr>query = q, variables = JSON_stringify E v\<rparr>)) of
             Inl e \<Rightarrow> \<lparr>query = JStr [], variables = JStr []\<rparr>
           | Inr g \<Rightarrow> g))"

text \<open>The object literals of lines 156 to 162, 166 to 173, 177 to 184, 210 to 216 and
  221 to 228.\<close>

definition headerEntry :: "json \<Rightarrow> kv gen" where
  "headerEntry header =
     gen_bind uuid (\<lambda>u. lift (
       ebind (js_prop header ''name'') (\<lambda>nm.
       ebind (js_prop header ''value'') (\<lambda>v.
       ebind (normalizeVariables v) (\<lambda>v'.
       ebind (js_prop header ''description'') (\<lambda>d.
       ebind (js_prop header ''disabled'') (\<lambda>dis.
         Inr \<lparr>kv_uid = u, kv_name = nm, kv_value = JStr v', kv_description = d,
              kv_type = None, kv_enabled = (\<not> truthy dis)\<rparr>)))))))"

definition queryEntry :: "json \<Rightarrow> kv gen" where
  "queryEntry param =
     gen_bind uuid (\<lambda>u. lift (
       ebind (js_prop param ''name'') (\<lambda>nm.
       ebind (js_prop param ''value'') (\<lambda>v.
       ebind (normalizeVariables v) (\<lambda>v'.
       ebind (js_prop param ''description'') (\<lambda>d.
       ebind (js_prop param ''disabled'') (\<lambda>dis.
         Inr \<lparr>kv_uid = u, kv_name = nm, kv_value = JStr v', kv_description = d,
              kv_type = Some ''query'', kv_enabled = (\<not> truthy dis)\<rparr>)))))))"

definition pathEntry :: "json \<Rightarrow> kv gen" where
  "pathEntry param =
     gen_bind uuid (\<lambda>u. lift (
       ebind (js_prop param ''name'') (\<lambda>nm.
       ebind (js_prop param ''value'') (\<lambda>v.
         Inr \<lparr>kv_uid = u, kv_name = nm, kv_value = v, kv_description = JStr [],
              kv_type = Some ''path'', kv_enabled = True\<rparr>))))"

definition formEntry :: "json \<Rightarrow> kv gen" where
  "formEntry param =
     gen_bind uuid (\<lambda>u. lift (
       ebind (js_prop param ''name'') (\<lambda>nm.
       ebind (js_prop param ''value'') (\<lambda>v.
       ebind (normalizeVariables v) (\<lambda>v'.
       ebind (js_prop param ''description'') (\<lambda>d.
       ebind (js_prop param ''disabled'') (\<lambda>dis.
         Inr \<lparr>kv_uid = u, kv_name = nm, kv_value = JStr v', kv_description = d,
              kv_type = None, kv_enabled = (\<not> truthy dis)\<rparr>)))))))"

definition multipartEntry :: "json \<Rightarrow> kv gen" where
  "multipartEntry param =
     gen_bind uuid (\<lambda>u. lift (
       ebind (js_prop param ''name'') (\<lambda>nm.
       ebind (js_prop param ''value'') (\<lambda>v.
       ebind (normalizeVariables v) (\<lambda>v'.
       ebind (js_prop param ''description'') (\<lambda>d.
       ebind (js_prop param ''disabled'') (\<lambda>dis.
         Inr \<lparr>kv_uid = u, kv_name = nm, kv_value = JStr v', kv_description = d,
              kv_type = Some ''text'', kv_enabled = (\<not> truthy dis)\<rparr>)))))))"

text \<open>Lines 187 to 200: the authentication block, starting from the literal of lines 136
  to 141.\<close>

definition noAuth :: auth where
  "noAuth = \<lparr>auth_mode = ''none'', basic = None, bearer = None, digest = None\<rparr>"

definition authBlock :: "obj \<Rightarrow> error + auth" where
  "authBlock request =
     (let authType = get (JObj request) ''authentication.type'' (JStr [])
      in if strict_eq authType (JStr ''basic'') then
           ebind (normalizeVariables
                    (get (JObj request) ''authentication.username'' (JStr []))) (\<lambda>u.
           ebind (normalizeVariables
                    (get (JObj request) ''authentication.password'' (JStr []))) (\<lambda>p.
             Inr (noAuth\<lparr>auth_mode := ''basic'',
                    basic := Some \<lparr>username = u, password = p\<rparr>\<rparr>)))
         else if strict_eq authType (JStr ''bearer'') then
           ebind (normalizeVariables
                    (get (JObj request) ''authentication.token'' (JStr []))) (\<lambda>t.
             Inr (noAuth\<lparr>auth_mode := ''bearer'', bearer := Some \<lparr>token = t\<rparr>\<rparr>))
         else Inr noAuth)"

text \<open>Line 202: \<^verbatim>\<open>get(request, 'body.mimeType', '').split(';')[0]\<close>. Only a string has
  the method \<^verbatim>\<open>split\<close>.\<close>

definition mimeTypeOf :: "obj \<Rightarrow> error + string" where
  "mimeTypeOf request =
     (case get (JObj request) ''body.mimeType'' (JStr []) of
        JStr s \<Rightarrow> Inr (takeWhile (\<lambda>c. c \<noteq> CHR '';'') s)
      | _ \<Rightarrow> Inl TypeError)"

text \<open>\<^verbatim>\<open>request.body.text\<close> and \<^verbatim>\<open>request.body.params\<close>.\<close>

definition bodyField :: "obj \<Rightarrow> string \<Rightarrow> error + json" where
  "bodyField request k = js_prop (fld request ''body'') k"

text \<open>Lines 202 to 240: the body block, starting from the literal of lines 144 to 151. The
  result is the node type together with the body.\<close>

definition noBody :: body where
  "noBody = \<lparr>body_mode = ''none'', body_json = None, body_text = None, body_xml = None,
             formUrlEncoded = [], multipartForm = [], body_graphql = None\<rparr>"

definition bodyBlock :: "engine \<Rightarrow> obj \<Rightarrow> (string \<times> body) gen" where
  "bodyBlock E request =
     gen_bind (lift (mimeTypeOf request)) (\<lambda>mimeType.
       if mimeType = ''application/json'' then
         lift (ebind (bodyField request ''text'') (\<lambda>t. ebind (normalizeVariables t) (\<lambda>t'.
           Inr (''http-request'', noBody\<lparr>body_mode := ''json'', body_json := Some t'\<rparr>))))
       else if mimeType = ''application/x-www-form-urlencoded'' then
         gen_bind (lift (bodyField request ''params'')) (\<lambda>ps.
         gen_bind (each_push formEntry ps) (\<lambda>es.
           ret (''http-request'', noBody\<lparr>body_mode := ''formUrlEncoded'', formUrlEncoded := es\<rparr>)))
       else if mimeType = ''multipart/form-data'' then
         gen_bind (lift (bodyField request ''params'')) (\<lambda>ps.
         gen_bind (each_push multipartEntry ps) (\<lambda>es.
           ret (''http-request'', noBody\<lparr>body_mode := ''multipartForm'', multipartForm := es\<rparr>)))
       else if mimeType = ''text/plain'' then
         lift (ebind (bodyField request ''text'') (\<lambda>t. ebind (normalizeVariables t) (\<lambda>t'.
           Inr (''http-request'', noBody\<lparr>body_mode := ''text'', body_text := Some t'\<rparr>))))
       else if mimeType = ''text/xml'' \<or> mimeType = ''application/xml'' then
         lift (ebind (bodyField request ''text'') (\<lambda>t. ebind (normalizeVariables t) (\<lambda>t'.
           Inr (''http-request'', noBody\<lparr>body_mode := ''xml'', body_xml := Some t'\<rparr>))))
       else if mimeType = ''application/graphql'' then
         lift (ebind (bodyField request ''text'') (\<lambda>t. ebind (normalizeVariables t) (\<lambda>t'.
           Inr (''graphql-request'',
                noBody\<lparr>body_mode := ''graphql'', body_graphql := Some (parseGraphQL E t')\<rparr>))))
       else ret (''http-request'', noBody))"

text \<open>Lines 126 to 243.\<close>

definition transformInsomniaRequestItem :: "engine \<Rightarrow> obj \<Rightarrow> nat \<Rightarrow> obj list \<Rightarrow> item gen" where
  "transformInsomniaRequestItem E request index allRequests =
     gen_bind (lift (addSuffixToDuplicateName request index allRequests)) (\<lambda>name.
     gen_bind uuid (\<lambda>u.
     gen_bind (lift (normalizeVariables (fld request ''url''))) (\<lambda>url.
     gen_bind (each_push headerEntry (fld request ''headers'')) (\<lambda>hs.
     gen_bind (each_push queryEntry (fld request ''parameters'')) (\<lambda>qs.
     gen_bind (each_push pathEntry (fld request ''pathParameters'')) (\<lambda>ps.
     gen_bind (lift (authBlock request)) (\<lambda>a.
     gen_bind (bodyBlock E request) (\<lambda>(type', b).
       ret (Request u name type'
              \<lparr>req_url = url, req_method = fld request ''method'', req_auth = a,
               req_headers = hs, req_params = qs @ ps, req_body = b\<rparr>)))))))))"

section \<open>The tree builder\<close>

text \<open>Source lines 272 to 292. The function calls itself for every request group; the
  first argument of the model bounds the depth of these calls, as the engine's call stack
  does, and the engine raises \<^verbatim>\<open>RangeError\<close> beyond it. A parameter declared as
  \<^verbatim>\<open>parentId = null\<close> takes its default when the argument is \<^verbatim>\<open>undefined\<close>.\<close>

definition defaultNull :: "json \<Rightarrow> json" where
  "defaultNull v = (if v = JUndefined then JNull else v)"

definition isType :: "string \<Rightarrow> obj \<Rightarrow> bool" where
  "isType t resource = strict_eq (fld resource ''_type'') (JStr t)"

definition childOf :: "json \<Rightarrow> obj \<Rightarrow> bool" where
  "childOf parentId resource = strict_eq (fld resource ''parentId'') parentId"

fun createFolderStructure :: "engine \<Rightarrow> nat \<Rightarrow> obj list \<Rightarrow> json \<Rightarrow> item list gen" where
  "createFolderStructure E 0 resources parentId' = raise RangeError"
| "createFolderStructure E (Suc depth) resources parentId' =
     (let parentId = defaultNull parentId';
          requestGroups =
            filter (\<lambda>resource. isType ''request_group'' resource \<and> childOf parentId resource)
              resources;
          requests =
            filter (\<lambda>resource. isType ''request'' resource \<and> childOf parentId resource)
              resources
      in gen_bind
           (array_map (\<lambda>folder index allFolder.
                gen_bind (lift (addSuffixToDuplicateName folder index allFolder)) (\<lambda>name.
                  (let requests =
                         filter (\<lambda>resource. isType ''request'' resource
                                   \<and> childOf (fld folder ''_id'') resource)
                           resources
                   in gen_bind uuid (\<lambda>u.
                      gen_bind (createFolderStructure E depth resources (fld folder ''_id''))
                        (\<lambda>sub.
                      gen_bind (array_map (transformInsomniaRequestItem E) requests)
                        (\<lambda>leaves. ret (Folder u name (sub @ leaves))))))))
              requestGroups)
           (\<lambda>folders.
              gen_bind (array_map (transformInsomniaRequestItem E) requests)
                (\<lambda>leaves. ret (folders @ leaves))))"

section \<open>The environment transformer\<close>

text \<open>Lines 309 to 316: the variables of one environment. \<^verbatim>\<open>environment.data || {}\<close>
  replaces a falsy value by the empty object.\<close>

definition variableEntry :: "string \<times> json \<Rightarrow> variable gen" where
  "variableEntry = (\<lambda>(key, v).
     gen_bind uuid (\<lambda>u. lift (
       ebind (toString v) (\<lambda>s.
       ebind (normalizeVariables (JStr s)) (\<lambda>s'.
         Inr \<lparr>var_uid = u, var_name = key, var_value = s', var_enabled = True,
              var_secret = False, var_type = ''text''\<rparr>)))))"

definition flattenedData :: "obj \<Rightarrow> (string \<times> json) list" where
  "flattenedData environment =
     own_entries (flatten (if truthy (fld environment ''data'') then fld environment ''data''
                           else JObj []))"

text \<open>Lines 309 to 322: the variables, then the result object.\<close>

definition environmentResult :: "obj \<Rightarrow> environment gen" where
  "environmentResult environment =
     gen_bind (map_from (\<lambda>e i. variableEntry e) 0 (flattenedData environment)) (\<lambda>vars.
     gen_bind uuid (\<lambda>u.
       ret \<lparr>env_uid = u, env_name = fld environment ''name'', env_variables = vars\<rparr>))"

text \<open>Lines 301 to 326, with the same bound on the depth of the calls. Line 307 writes to
  the console, which the model leaves out.\<close>

fun createEnvironments :: "nat \<Rightarrow> obj list \<Rightarrow> json \<Rightarrow> environment list gen" where
  "createEnvironments 0 resources parentId' = raise RangeError"
| "createEnvironments (Suc depth) resources parentId' =
     (let parentId = defaultNull parentId';
          environments =
            filter (\<lambda>resource. isType ''environment'' resource \<and> childOf parentId resource)
              resources
      in reduce (\<lambda>result environment.
             gen_bind (environmentResult environment) (\<lambda>environmentResult'.
             gen_bind (createEnvironments depth resources (fld environment ''_id''))
               (\<lambda>children. ret (result @ environmentResult' # children))))
           environments [])"

section \<open>The conversion\<close>

text \<open>Source lines 245 to 336. The executor of the promise runs at once. A promise settles
  once: \<^verbatim>\<open>resolve\<close> and \<^verbatim>\<open>reject\<close> have no effect on a settled promise.\<close>

datatype outcome = Resolved collection | Rejected string

definition settle :: "outcome option \<Rightarrow> outcome \<Rightarrow> outcome option" where
  "settle promise out = (case promise of None \<Rightarrow> Some out | Some _ \<Rightarrow> promise)"

text \<open>The callbacks of lines 258, 267 and 270 read \<^verbatim>\<open>resource._type\<close>, which raises
  when the element is \<^verbatim>\<open>null\<close> or \<^verbatim>\<open>undefined\<close>.\<close>

definition hasType :: "string \<Rightarrow> json \<Rightarrow> error + bool" where
  "hasType t resource = ebind (js_prop resource ''_type'') (\<lambda>v. Inr (strict_eq v (JStr t)))"

definition requestOrFolder :: "json \<Rightarrow> error + bool" where
  "requestOrFolder resource =
     ebind (hasType ''request'' resource) (\<lambda>b.
       if b then Inr True else hasType ''request_group'' resource)"

text \<open>\<^verbatim>\<open>v.find(p)\<close> and \<^verbatim>\<open>v.filter(p)\<close> with a callback that may raise. \<^verbatim>\<open>find\<close>
  returns \<^verbatim>\<open>undefined\<close> when no element passes. Only an array has these methods: on any
  other value of a parsed document the call raises \<^verbatim>\<open>TypeError\<close>.\<close>

fun find_from :: "(json \<Rightarrow> error + bool) \<Rightarrow> json list \<Rightarrow> error + json" where
  "find_from p [] = Inr JUndefined"
| "find_from p (x # xs) = ebind (p x) (\<lambda>b. if b then Inr x else find_from p xs)"

definition array_find :: "(json \<Rightarrow> error + bool) \<Rightarrow> json \<Rightarrow> error + json" where
  "array_find p v = (case v of JArr xs \<Rightarrow> find_from p xs | _ \<Rightarrow> Inl TypeError)"

fun filter_from :: "(json \<Rightarrow> error + bool) \<Rightarrow> json list \<Rightarrow> error + json list" where
  "filter_from p [] = Inr []"
| "filter_from p (x # xs) =
     ebind (p x) (\<lambda>b. ebind (filter_from p xs) (\<lambda>ys. Inr (if b then x # ys else ys)))"

definition array_filter :: "(json \<Rightarrow> error + bool) \<Rightarrow> json \<Rightarrow> error + json list" where
  "array_filter p v = (case v of JArr xs \<Rightarrow> filter_from p xs | _ \<Rightarrow> Inl TypeError)"

text \<open>The own properties of a value. An element that passed a filter of lines 266 to 270
  has a \<^verbatim>\<open>_type\<close> and so is an object; \<open>createFolderStructure\<close> and
  \<open>createEnvironments\<close> read its properties.\<close>

definition properties :: "json \<Rightarrow> obj" where
  "properties v = (case v of JObj kvs \<Rightarrow> kvs | _ \<Rightarrow> [])"

text \<open>Lines 264 to 331, the statements of the \<^verbatim>\<open>try\<close> block after the test of line 260,
  up to the collection handed to \<^verbatim>\<open>resolve\<close>. The block starts by reading
  \<^verbatim>\<open>insomniaCollection.name\<close>, which raises when \<^verbatim>\<open>find\<close> returned \<^verbatim>\<open>undefined\<close>.\<close>

definition convert ::
  "engine \<Rightarrow> nat \<Rightarrow> json \<Rightarrow> json \<Rightarrow> collection \<Rightarrow> collection gen" where
  "convert E depth insomniaResources insomniaCollection brunoCollection =
     gen_bind (lift (js_prop insomniaCollection ''name'')) (\<lambda>name.
     gen_bind (lift (array_filter requestOrFolder insomniaResources)) (\<lambda>requestsAndFolders.
     gen_bind (lift (array_filter (hasType ''environment'') insomniaResources)) (\<lambda>environments.
     gen_bind (lift (js_prop insomniaCollection ''_id'')) (\<lambda>workspaceId.
     gen_bind (createEnvironments depth (map properties environments) workspaceId) (\<lambda>envs.
     gen_bind (lift (js_prop insomniaCollection ''_id'')) (\<lambda>workspaceId'.
     gen_bind (createFolderStructure E depth (map properties requestsAndFolders) workspaceId')
       (\<lambda>items.
          ret (brunoCollection\<lparr>col_name := name, col_environments := envs,
                 col_items := items\<rparr>))))))))"

definition notFoundMessage :: string where
  "notFoundMessage = ''Collection not found inside Insomnia export''"

definition parsingErrorMessage :: string where
  "parsingErrorMessage = ''An error occurred while parsing the Insomnia collection''"

text \<open>Lines 245 to 336. The argument is the parsed document, any value. The literal of
  lines 246 to 252 draws the first identifier, before the promise is created. An exception
  of line 258 reaches the \<^verbatim>\<open>catch\<close> clause before line 260 is run. After the
  \<^verbatim>\<open>reject\<close> of line 261 the \<^verbatim>\<open>try\<close> block goes on.\<close>

definition parseInsomniaCollection :: "engine \<Rightarrow> nat \<Rightarrow> json \<Rightarrow> nat \<Rightarrow> outcome option" where
  "parseInsomniaCollection E depth data n =
     (let brunoCollection =
            \<lparr>col_name = JStr [], col_uid = n, col_version = ''1'', col_items = [],
             col_environments = []\<rparr>;
          insomniaResources = get data ''resources'' (JArr [])
      in case array_find (hasType ''workspace'') insomniaResources of
           Inl err \<Rightarrow> settle None (Rejected parsingErrorMessage)
         | Inr insomniaCollection \<Rightarrow>
             (let promise =
                    (if \<not> truthy insomniaCollection
                     then settle None (Rejected notFoundMessage) else None)
              in case convert E depth insomniaResources insomniaCollection brunoCollection
                        (Suc n) of
                   Inl err \<Rightarrow> settle promise (Rejected parsingErrorMessage)
                 | Inr (c, n2) \<Rightarrow> settle promise (Resolved c)))"

section \<open>Definitions used to state the properties\<close>

text \<open>The number of siblings before position \<open>index\<close> whose name is the item's name.\<close>

definition earlierSameName :: "obj \<Rightarrow> nat \<Rightarrow> obj list \<Rightarrow> nat" where
  "earlierSameName item' index allItems =
     length (filter (\<lambda>other. strict_eq (fld other ''name'') (fld item' ''name''))
               (take index allItems))"

text \<open>The display names of a whole sibling list, as \<^verbatim>\<open>allItems.map\<close> computes them, and
  siblings that carry nothing but a name.\<close>

definition displayNames :: "obj list \<Rightarrow> (error + json) list" where
  "displayNames allItems =
     map (\<lambda>(index, item'). addSuffixToDuplicateName item' index allItems) (enumerate 0 allItems)"

definition named :: "string list \<Rightarrow> obj list" where
  "named ns = map (\<lambda>n. [(''name'', JStr n)]) ns"

text \<open>The rewriting as the specification words it: the text is cut at the matches of
  \<^verbatim>\<open>regexVariable\<close>, every match is rewritten on its own, and the text between the
  matches is kept.\<close>

function rewriteSpans :: "string \<Rightarrow> string" where
  "rewriteSpans s =
     (if s = [] then []
      else if starts_with ''{{'' s then
        (case span_end (drop 2 s) of
           Some k \<Rightarrow> rewriteVariable (take (2 + k) s) @ rewriteSpans (drop (2 + k) s)
         | None \<Rightarrow> hd s # rewriteSpans (tl s))
      else hd s # rewriteSpans (tl s))"
  by pat_completeness auto
termination
  by (relation "measure length") (auto simp: neq_Nil_conv)

declare rewriteSpans.simps [simp del]

text \<open>The parsed document that holds the given resources, all of them objects.\<close>

definition document :: "obj list \<Rightarrow> json" where
  "document resources = JObj [(''resources'', JArr (map JObj resources))]"

fun isArray :: "json \<Rightarrow> bool" where
  "isArray (JArr xs) = True"
| "isArray v = False"

text \<open>The export of the end-to-end scenario: one workspace, one request group named Auth
  with one basic-auth GET request, and one environment.\<close>

definition minimalExport :: "obj list" where
  "minimalExport =
     [[(''_id'', JStr ''wrk_1''), (''_type'', JStr ''workspace''), (''parentId'', JNull),
       (''name'', JStr ''My API'')],
      [(''_id'', JStr ''fld_1''), (''_type'', JStr ''request_group''),
       (''parentId'', JStr ''wrk_1''), (''name'', JStr ''Auth'')],
      [(''_id'', JStr ''req_1''), (''_type'', JStr ''request''), (''parentId'', JStr ''fld_1''),
       (''name'', JStr ''Login''), (''url'', JStr ''{{base_url}}/login''),
       (''method'', JStr ''GET''), (''body'', JObj []),
       (''authentication'',
          JObj [(''type'', JStr ''basic''), (''username'', JStr ''u''),
                (''password'', JStr ''p'')])],
      [(''_id'', JStr ''env_1''), (''_type'', JStr ''environment''),
       (''parentId'', JStr ''wrk_1''), (''name'', JStr ''Base''),
       (''data'', JObj [(''token'', JStr ''x'')])]]"

text \<open>The node that the request of the scenario becomes, with identifier \<open>u\<close>.\<close>

definition loginRequest :: "nat \<Rightarrow> item" where
  "loginRequest u =
     Request u (JStr ''Login'') ''http-request''
       \<lparr>req_url = ''{{base_url}}/login'', req_method = JStr ''GET'',
        req_auth = \<lparr>auth_mode = ''basic'',
                     basic = Some \<lparr>username = ''u'', password = ''p''\<rparr>,
                     bearer = None, digest = None\<rparr>,
        req_headers = [], req_params = [],
        req_body = \<lparr>body_mode = ''none'', body_json = None, body_text = None,
                     body_xml = None, formUrlEncoded = [], multipartForm = [],
                     body_graphql = None\<rparr>\<rparr>"

text \<open>The values on which the rewriter returns, and what it returns for them: a string is
  rewritten, any other falsy value gives the empty string (see \<open>normalizeVariables_cases\<close>
  below).\<close>

fun rewritable :: "json \<Rightarrow> bool" where
  "rewritable (JStr s) = True"
| "rewritable v = (\<not> truthy v)"

fun rewritten :: "json \<Rightarrow> string" where
  "rewritten (JStr s) = normalizeText s"
| "rewritten v = []"

text \<open>The MIME types of the body table.\<close>

definition recognizedMimeTypes :: "string list" where
  "recognizedMimeTypes =
     [''application/json'', ''application/x-www-form-urlencoded'', ''multipart/form-data'',
      ''text/plain'', ''text/xml'', ''application/xml'', ''application/graphql'']"

text \<open>An engine whose \<^verbatim>\<open>JSON.parse\<close> rejects every text, and some requests, used as
  concrete inputs.\<close>

definition nullEngine :: engine where
  "nullEngine = \<lparr>JSON_parse = (\<lambda>s. None), JSON_stringify = (\<lambda>v. JUndefined)\<rparr>"

definition basicRequest :: obj where
  "basicRequest =
     [(''name'', JStr ''r''), (''url'', JStr ''http://h/{{ a.b }}''),
      (''authentication'', JObj [(''type'', JStr ''basic''), (''username'', JStr ''{{ a.b }}'')]),
      (''body'', JObj [(''mimeType'', JStr ''application/json; charset=utf-8''),
                       (''text'', JStr ''[{{ _.v }}]'')])]"

definition bearerRequest :: obj where
  "bearerRequest =
     [(''authentication'', JObj [(''type'', JStr ''bearer''), (''token'', JStr ''{{ t[0] }}'')]),
      (''body'', JObj [(''mimeType'', JStr ''application/graphql''), (''text'', JStr ''{'')])]"

definition oauthRequest :: obj where
  "oauthRequest =
     [(''authentication'', JObj [(''type'', JStr ''oauth2'')]),
      (''body'', JObj [(''mimeType'', JStr ''application/x-www-form-urlencoded''),
                       (''params'', JArr [JObj [(''name'', JStr ''a''), (''value'', JStr ''{{ b }}''),
                                                (''disabled'', JBool True)]])])]"

definition plainRequest :: obj where
  "plainRequest = [(''body'', JObj [(''mimeType'', JStr ''image/png'')])]"

text \<open>Requests with a number where text is expected.\<close>

definition numericRequest :: obj where
  "numericRequest =
     [(''name'', JStr ''r''), (''url'', JStr ''http://h''),
      (''authentication'',
         JObj [(''type'', JStr ''basic''), (''username'', JNum 12345),
               (''password'', JStr ''p'')])]"

definition numericBodyRequest :: obj where
  "numericBodyRequest =
     [(''name'', JStr ''r''), (''url'', JStr ''http://h''),
      (''body'', JObj [(''mimeType'', JStr ''application/json''), (''text'', JNum 5)])]"

text \<open>The ordering of a node list: once a node that is not a folder has occurred, no folder
  follows (\<open>foldersFirst_index\<close> below says the same with positions). A tree is ordered
  when this holds for the items of every folder in it.\<close>

fun isFolder :: "item \<Rightarrow> bool" where
  "isFolder (Folder u nm its) = True"
| "isFolder (Request u nm ty spec) = False"

definition foldersFirst :: "item list \<Rightarrow> bool" where
  "foldersFirst its = list_all (\<lambda>x. \<not> isFolder x) (dropWhile isFolder its)"

fun orderedTree :: "item \<Rightarrow> bool" where
  "orderedTree (Folder u nm its) = (foldersFirst its \<and> list_all orderedTree its)"
| "orderedTree (Request u nm ty spec) = True"

text \<open>The environments below a parent in pre-order, as the specification words it: every
  environment of the level, in document order, each followed at once by the pre-order
  listing of the environments parented to it. The depth bounds the nesting as in
  \<open>createEnvironments\<close>.\<close>

fun envPreorder :: "nat \<Rightarrow> obj list \<Rightarrow> json \<Rightarrow> obj list" where
  "envPreorder 0 resources parentId = []"
| "envPreorder (Suc depth) resources parentId =
     concat (map (\<lambda>environment.
                    environment # envPreorder depth resources (fld environment ''_id''))
               (filter (\<lambda>resource. isType ''environment'' resource
                          \<and> childOf (defaultNull parentId) resource) resources))"

text \<open>An output environment is what \<open>environmentResult\<close> makes of a resource, for some state
  of the identifier counter.\<close>

definition transformsTo :: "environment \<Rightarrow> obj \<Rightarrow> bool" where
  "transformsTo env e = (\<exists>m m'. environmentResult e m = Inr (env, m'))"

text \<open>The environment of the flattening example, whose raw data is \<^verbatim>\<open>{a: {b: 1, c: 2}}\<close>.\<close>

definition abEnvironment :: obj where
  "abEnvironment =
     [(''_id'', JStr ''env_1''), (''_type'', JStr ''environment''), (''name'', JStr ''Base''),
      (''data'', JObj [(''a'', JObj [(''b'', JNum 1), (''c'', JNum 2)])])]"

text \<open>An environment whose flattened data holds \<^verbatim>\<open>null\<close> or \<^verbatim>\<open>undefined\<close>.\<close>

definition nullish :: "json \<Rightarrow> bool" where
  "nullish v = (v = JNull \<or> v = JUndefined)"

definition hasNullish :: "obj \<Rightarrow> bool" where
  "hasNullish environment = list_ex (\<lambda>(key, v). nullish v) (flattenedData environment)"

text \<open>The environments that \<open>createEnvironments\<close> visits from a parent: those parented to
  it, and those it visits from one of them.\<close>

inductive envReach :: "obj list \<Rightarrow> json \<Rightarrow> obj \<Rightarrow> bool" for resources :: "obj list" where
  direct: "e \<in> set resources \<Longrightarrow> isType ''environment'' e \<Longrightarrow> childOf (defaultNull parentId) e
             \<Longrightarrow> envReach resources parentId e"
| nested: "p \<in> set resources \<Longrightarrow> isType ''environment'' p \<Longrightarrow> childOf (defaultNull parentId) p
             \<Longrightarrow> envReach resources (fld p ''_id'') e \<Longrightarrow> envReach resources parentId e"

text \<open>Concrete exports: one whose only environment belongs to the second workspace and holds
  a \<^verbatim>\<open>null\<close>; one with a \<^verbatim>\<open>null\<close> in an environment nested below the base environment
  of the workspace; one that declares a request before the folders of its level; one
  environment forest that declares a sibling before a child.\<close>

definition orphanExport :: "obj list" where
  "orphanExport =
     [[(''_id'', JStr ''wrk_1''), (''_type'', JStr ''workspace''), (''parentId'', JNull),
       (''name'', JStr ''First'')],
      [(''_id'', JStr ''wrk_2''), (''_type'', JStr ''workspace''), (''parentId'', JNull),
       (''name'', JStr ''Second'')],
      [(''_id'', JStr ''env_2''), (''_type'', JStr ''environment''),
       (''parentId'', JStr ''wrk_2''), (''name'', JStr ''Base''),
       (''data'', JObj [(''token'', JNull)])]]"

definition nestedExport :: "obj list" where
  "nestedExport =
     [[(''_id'', JStr ''wrk_1''), (''_type'', JStr ''workspace''), (''parentId'', JNull),
       (''name'', JStr ''First'')],
      [(''_id'', JStr ''env_1''), (''_type'', JStr ''environment''),
       (''parentId'', JStr ''wrk_1''), (''name'', JStr ''Base''),
       (''data'', JObj [(''host'', JStr ''h'')])],
      [(''_id'', JStr ''env_2''), (''_type'', JStr ''environment''),
       (''parentId'', JStr ''env_1''), (''name'', JStr ''Staging''),
       (''data'', JObj [(''auth'', JObj [(''token'', JNull)])])]]"

definition mixedExport :: "obj list" where
  "mixedExport =
     [[(''_id'', JStr ''req_1''), (''_type'', JStr ''request''), (''parentId'', JStr ''wrk_1''),
       (''name'', JStr ''Ping'')],
      [(''_id'', JStr ''fld_1''), (''_type'', JStr ''request_group''),
       (''parentId'', JStr ''wrk_1''), (''name'', JStr ''Auth'')],
      [(''_id'', JStr ''req_2''), (''_type'', JStr ''request''), (''parentId'', JStr ''fld_1''),
       (''name'', JStr ''Login'')],
      [(''_id'', JStr ''fld_2''), (''_type'', JStr ''request_group''),
       (''parentId'', JStr ''fld_1''), (''name'', JStr ''Tokens'')]]"

definition forestExport :: "obj list" where
  "forestExport =
     [[(''_id'', JStr ''env_1''), (''_type'', JStr ''environment''),
       (''parentId'', JStr ''wrk_1''), (''name'', JStr ''Base'')],
      [(''_id'', JStr ''env_3''), (''_type'', JStr ''environment''),
       (''parentId'', JStr ''wrk_1''), (''name'', JStr ''Other'')],
      [(''_id'', JStr ''env_2''), (''_type'', JStr ''environment''),
       (''parentId'', JStr ''env_1''), (''name'', JStr ''Staging'')]]"

section \<open>Properties of the naming de-duplicator\<close>

lemma count_foldl_enumerate:
  "foldl (\<lambda>c (j, x). if P x \<and> j < index then c + 1 else c) acc (enumerate k xs)
     = acc + length (filter P (take (index - k) xs))"
proof (induction xs arbitrary: acc k)
  case Nil
  then show ?case by simp
next
  case (Cons x xs)
  show ?case
  proof (cases "k < index")
    case True
    then obtain d where d: "index - k = Suc d" "index - Suc k = d"
      by (cases "index - k") auto
    with True Cons.IH [of _ "Suc k"] show ?thesis by simp
  next
    case False
    with Cons.IH [of _ "Suc k"] show ?thesis by simp
  qed
qed

lemma addSuffix_count:
  "addSuffixToDuplicateName item' index allItems =
     (if earlierSameName item' index allItems \<noteq> 0
      then ebind (js_String (fld item' ''name''))
             (\<lambda>s. Inr (JStr (s @ ''_'' @ string_of_nat (earlierSameName item' index allItems))))
      else Inr (fld item' ''name''))"
  unfolding addSuffixToDuplicateName_def earlierSameName_def
  using count_foldl_enumerate
    [of "\<lambda>other. strict_eq (fld other ''name'') (fld item' ''name'')" index 0 0 allItems]
  by (simp add: Let_def)

lemma strict_eq_imp_eq: "strict_eq a b \<Longrightarrow> a = b"
  by (cases a; cases b) auto

lemma distinct_no_earlier:
  assumes "distinct (map (\<lambda>it. fld it ''name'') allItems)" "i < length allItems"
  shows "earlierSameName (allItems ! i) i allItems = 0"
proof -
  have "\<not> strict_eq (fld other ''name'') (fld (allItems ! i) ''name'')"
    if "other \<in> set (take i allItems)" for other
  proof
    assume "strict_eq (fld other ''name'') (fld (allItems ! i) ''name'')"
    then have eq: "fld other ''name'' = fld (allItems ! i) ''name''"
      by (rule strict_eq_imp_eq)
    from that obtain j where j: "j < i" "other = allItems ! j"
      using assms(2) by (auto simp: in_set_conv_nth)
    from assms j
    have "map (\<lambda>it. fld it ''name'') allItems ! j \<noteq> map (\<lambda>it. fld it ''name'') allItems ! i"
      by (auto simp: distinct_conv_nth)
    with assms j eq show False
      by simp
  qed
  then show ?thesis
    by (simp add: earlierSameName_def filter_empty_conv)
qed

lemma strict_eq_printable: "strict_eq a b \<Longrightarrow> \<exists>s. js_String b = Inr s"
  by (cases a; cases b) auto

lemma earlier_printable:
  assumes "earlierSameName item' index allItems \<noteq> 0"
  shows "\<exists>s. js_String (fld item' ''name'') = Inr s"
proof -
  from assms obtain other where "strict_eq (fld other ''name'') (fld item' ''name'')"
    by (auto simp: earlierSameName_def filter_empty_conv)
  then show ?thesis
    by (rule strict_eq_printable)
qed

lemma displayNames_example:
  "displayNames (named [''A'', ''B'', ''A'', ''A''])
     = map (\<lambda>n. Inr (JStr n)) [''A'', ''B'', ''A_1'', ''A_2'']"
  by code_simp

text \<open>
  Claim C2. For every sibling list, every index and every item, the de-duplicator returns
  the item's name unchanged when no sibling at a strictly lower index has the same name,
  and otherwise the name followed by an underscore and the number of strictly earlier
  siblings of that very name. It never raises: a name that has an equal is a primitive
  value, which the template literal prints; for a name that is a string, the printed text
  is the name. Siblings named A, B, A, A get the display names A, B, A_1, A_2, and a
  sibling list of pairwise distinct names keeps every name.
\<close>

theorem addSuffixToDuplicateName_rule:
  "(earlierSameName item' index allItems = 0 \<longrightarrow>
      addSuffixToDuplicateName item' index allItems = Inr (fld item' ''name''))
   \<and> (earlierSameName item' index allItems \<noteq> 0 \<longrightarrow>
      (\<exists>s. js_String (fld item' ''name'') = Inr s
         \<and> addSuffixToDuplicateName item' index allItems
             = Inr (JStr (s @ ''_'' @ string_of_nat (earlierSameName item' index allItems)))))
   \<and> (earlierSameName item' index allItems \<noteq> 0 \<longrightarrow> fld item' ''name'' = JStr nm \<longrightarrow>
      addSuffixToDuplicateName item' index allItems
        = Inr (JStr (nm @ ''_'' @ string_of_nat (earlierSameName item' index allItems))))
   \<and> displayNames (named [''A'', ''B'', ''A'', ''A''])
        = map (\<lambda>n. Inr (JStr n)) [''A'', ''B'', ''A_1'', ''A_2'']
   \<and> (distinct (map (\<lambda>it. fld it ''name'') allItems) \<longrightarrow>
        displayNames allItems = map (\<lambda>it. Inr (fld it ''name'')) allItems)"
proof (intro conjI impI)
  show "displayNames (named [''A'', ''B'', ''A'', ''A''])
        = map (\<lambda>n. Inr (JStr n)) [''A'', ''B'', ''A_1'', ''A_2'']"
    by (rule displayNames_example)
next
  assume d: "distinct (map (\<lambda>it. fld it ''name'') allItems)"
  show "displayNames allItems = map (\<lambda>it. Inr (fld it ''name'')) allItems"
  proof (rule nth_equalityI)
    show "length (displayNames allItems) = length (map (\<lambda>it. Inr (fld it ''name'')) allItems)"
      by (simp add: displayNames_def)
  next
    fix i assume "i < length (displayNames allItems)"
    then have i: "i < length allItems" by (simp add: displayNames_def)
    then show "displayNames allItems ! i = map (\<lambda>it. Inr (fld it ''name'')) allItems ! i"
      using distinct_no_earlier [OF d i]
      by (simp add: displayNames_def nth_enumerate_eq addSuffix_count)
  qed
next
  assume a: "earlierSameName item' index allItems \<noteq> 0"
  from earlier_printable [OF a] obtain s where s: "js_String (fld item' ''name'') = Inr s"
    by blast
  with a show "\<exists>s. js_String (fld item' ''name'') = Inr s
         \<and> addSuffixToDuplicateName item' index allItems
             = Inr (JStr (s @ ''_'' @ string_of_nat (earlierSameName item' index allItems)))"
    by (simp add: addSuffix_count ebind_def)
qed (simp_all add: addSuffix_count ebind_def)

theorem addSuffixToDuplicateName_rule_witness:
  "earlierSameName [(''name'', JStr ''B'')] 1 (named [''A'', ''B'', ''A'']) = 0
   \<and> addSuffixToDuplicateName [(''name'', JStr ''B'')] 1 (named [''A'', ''B'', ''A''])
       = Inr (JStr ''B'')
   \<and> earlierSameName [(''name'', JStr ''A'')] 2 (named [''A'', ''B'', ''A'']) = 1
   \<and> addSuffixToDuplicateName [(''name'', JStr ''A'')] 2 (named [''A'', ''B'', ''A''])
       = Inr (JStr ''A_1'')
   \<and> distinct (map (\<lambda>it. fld it ''name'') (named [''A'', ''B'']))
   \<and> displayNames (named [''A'', ''B'']) = [Inr (JStr ''A''), Inr (JStr ''B'')]"
proof -
  have e0: "earlierSameName [(''name'', JStr ''B'')] 1 (named [''A'', ''B'', ''A'']) = 0"
    by code_simp
  have e1: "earlierSameName [(''name'', JStr ''A'')] 2 (named [''A'', ''B'', ''A'']) = 1"
    by code_simp
  have f: "fld [(''name'', JStr ''A'')] ''name'' = JStr ''A''"
    by code_simp
  have f': "fld [(''name'', JStr ''B'')] ''name'' = JStr ''B''"
    by code_simp
  have s: "string_of_nat 1 = ''1''"
    by code_simp
  have d: "distinct (map (\<lambda>it. fld it ''name'') (named [''A'', ''B'']))"
    by code_simp
  have m: "map (\<lambda>it. Inr (fld it ''name'')) (named [''A'', ''B''])
             = [Inr (JStr ''A''), Inr (JStr ''B'') :: error + json]"
    by code_simp
  from addSuffixToDuplicateName_rule
         [of "[(''name'', JStr ''B'')]" 1 "named [''A'', ''B'', ''A'']" "''B''"] e0 f'
  have r0: "addSuffixToDuplicateName [(''name'', JStr ''B'')] 1 (named [''A'', ''B'', ''A''])
              = Inr (JStr ''B'')"
    by simp
  from addSuffixToDuplicateName_rule
         [of "[(''name'', JStr ''A'')]" 2 "named [''A'', ''B'', ''A'']" "''A''"] e1 f s
  have r1: "addSuffixToDuplicateName [(''name'', JStr ''A'')] 2 (named [''A'', ''B'', ''A''])
              = Inr (JStr ''A_1'')"
    by simp
  from addSuffixToDuplicateName_rule [of "[]" 0 "named [''A'', ''B'']" "[]"] d m
  have r2: "displayNames (named [''A'', ''B'']) = [Inr (JStr ''A''), Inr (JStr ''B'')]"
    by simp
  from e0 e1 r0 r1 r2 d show ?thesis
    by blast
qed

section \<open>The end-to-end scenario\<close>

text \<open>
  Claim C1. On the minimal export the conversion resolves, with the environment and its
  single variable as expected, but the folder Auth holds the request twice: line 287
  appends the requests parented to the folder to the result of the recursive call, which
  by line 291 already ends with these requests. The claim expects the request exactly
  once. The value below is what the code returns, for every engine and a call depth of 3.
\<close>

theorem minimal_export_duplicates_request:
  "parseInsomniaCollection E 3 (document minimalExport) 0 =
     Some (Resolved
       \<lparr>col_name = JStr ''My API'', col_uid = 0, col_version = ''1'',
        col_items = [Folder 3 (JStr ''Auth'') [loginRequest 4, loginRequest 5]],
        col_environments =
          [\<lparr>env_uid = 2, env_name = JStr ''Base'',
            env_variables =
              [\<lparr>var_uid = 1, var_name = ''token'', var_value = ''x'', var_enabled = True,
                var_secret = False, var_type = ''text''\<rparr>]\<rparr>]\<rparr>)"
  by code_simp

section \<open>Properties of the variable rewriter\<close>

lemma normalizeVariables_text: "normalizeVariables (JStr s) = Inr (normalizeText s)"
  by (cases s) (simp_all add: normalizeVariables_def normalizeText_def regexVariable_match.simps)

lemma normalizeVariables_falsy: "\<not> truthy v \<Longrightarrow> normalizeVariables v = Inr []"
  by (simp add: normalizeVariables_def normalizeText_def regexVariable_match.simps)

text \<open>
  Claim C3. The rewriter is meant to rewrite every matched span on its own and to leave
  the rest of the text alone, which is what \<open>rewriteSpans\<close> does. Line 121 instead calls
  \<^verbatim>\<open>value.replaceAll(variable, rewritten)\<close> with two strings: the second is read as a
  replacement template, so a doubled dollar sign inside a span loses one sign, and every
  occurrence of the matched text is replaced, also inside a later span, which then no
  longer occurs in the value when its turn comes and keeps its white space.
\<close>

theorem normalizeVariables_differs_from_spans:
  "normalizeVariables (JStr ''{{$$}}'') = Inr ''{{$}}''
   \<and> rewriteSpans ''{{$$}}'' = ''{{$$}}''
   \<and> normalizeVariables (JStr ''{{.}} {{ {{.}}'') = Inr ''{{_}} {{ {{_}}''
   \<and> rewriteSpans ''{{.}} {{ {{.}}'' = ''{{_}} {{{{_}}''"
  by code_simp

text \<open>
  Claim C4. The example of the claim is rewritten to an underscore-joined name without
  white space, brackets or dots, and an empty, \<^verbatim>\<open>null\<close> or \<^verbatim>\<open>undefined\<close> argument gives
  the empty string. The rewriter is not idempotent: its output on a span with four dollar
  signs is a span with two, which it rewrites to a span with one (the replacement template
  of line 121 again); and the output for the second input of claim C3 changes when it is
  rewritten once more.
\<close>

theorem normalizeVariables_not_idempotent:
  "normalizeVariables (JStr ''{{ foo.bar_baz[0] }}'') = Inr ''{{foo_bar_baz_0}}''
   \<and> normalizeVariables (JStr []) = Inr []
   \<and> normalizeVariables JNull = Inr []
   \<and> normalizeVariables JUndefined = Inr []
   \<and> normalizeVariables (JStr ''{{$$$$}}'') = Inr ''{{$$}}''
   \<and> normalizeVariables (JStr ''{{$$}}'') = Inr ''{{$}}''
   \<and> normalizeVariables (JStr ''{{_}} {{ {{_}}'') = Inr ''{{_}} {{{{_}}''"
  by code_simp

section \<open>Basic facts about the computations\<close>

lemma gen_bind_eq_Inr:
  "gen_bind m f n = Inr (y, n'') \<longleftrightarrow> (\<exists>x n'. m n = Inr (x, n') \<and> f x n' = Inr (y, n''))"
  by (auto simp: gen_bind_def split: sum.splits)

lemma gen_bind_Inr: "m n = Inr (x, n') \<Longrightarrow> gen_bind m f n = f x n'"
  by (simp add: gen_bind_def)

lemma gen_bind_Inl: "m n = Inl e \<Longrightarrow> gen_bind m f n = Inl e"
  by (simp add: gen_bind_def)

lemma lift_eq_Inr: "lift r n = Inr (x, n') \<longleftrightarrow> r = Inr x \<and> n' = n"
  by (auto simp: lift_def split: sum.splits)

lemma lift_Inr: "lift (Inr x) n = Inr (x, n)"
  by (simp add: lift_def)

lemma lift_Inl: "lift (Inl e) n = Inl e"
  by (simp add: lift_def)

lemma ret_eq_Inr: "ret x n = Inr (y, n') \<longleftrightarrow> y = x \<and> n' = n"
  by (auto simp: ret_def)

lemma uuid_eq_Inr: "uuid n = Inr (u, n') \<longleftrightarrow> u = n \<and> n' = Suc n"
  by (auto simp: uuid_def)

lemma ebind_eq_Inr: "ebind r f = Inr y \<longleftrightarrow> (\<exists>x. r = Inr x \<and> f x = Inr y)"
  by (auto simp: ebind_def split: sum.splits)

lemma strict_eq_JStr: "strict_eq a (JStr s) \<longleftrightarrow> a = JStr s"
  by (cases a) auto

section \<open>Properties of the request transformer\<close>

lemma transform_Inr:
  assumes "transformInsomniaRequestItem E request index allRequests n = Inr (it, n')"
  shows "\<exists>u nm ty spec n0. it = Request u nm ty spec
           \<and> authBlock request = Inr (req_auth spec)
           \<and> bodyBlock E request n0 = Inr ((ty, req_body spec), n')"
  using assms unfolding transformInsomniaRequestItem_def
  by (auto simp: gen_bind_eq_Inr lift_eq_Inr ret_eq_Inr)

lemma normalizeText_empty: "normalizeText [] = []"
  by (simp add: normalizeText_def regexVariable_match.simps)

lemma normalizeVariables_cases:
  "normalizeVariables v = (if rewritable v then Inr (rewritten v) else Inl TypeError)"
  by (cases v) (auto simp: normalizeVariables_def normalizeText_empty)

lemma authBlock_none:
  assumes "get (JObj request) ''authentication.type'' (JStr []) \<noteq> JStr ''basic''"
    and "get (JObj request) ''authentication.type'' (JStr []) \<noteq> JStr ''bearer''"
  shows "authBlock request = Inr noAuth"
  using assms by (simp add: authBlock_def strict_eq_JStr Let_def)

lemma authBlock_basic:
  assumes "get (JObj request) ''authentication.type'' (JStr []) = JStr ''basic''"
    and "rewritable (get (JObj request) ''authentication.username'' (JStr []))"
    and "rewritable (get (JObj request) ''authentication.password'' (JStr []))"
  shows "authBlock request =
           Inr \<lparr>auth_mode = ''basic'',
                basic = Some \<lparr>username = rewritten (get (JObj request) ''authentication.username'' (JStr [])),
                              password = rewritten (get (JObj request) ''authentication.password'' (JStr []))\<rparr>,
                bearer = None, digest = None\<rparr>"
  using assms by (simp add: authBlock_def Let_def ebind_def noAuth_def normalizeVariables_cases)

lemma authBlock_bearer:
  assumes "get (JObj request) ''authentication.type'' (JStr []) = JStr ''bearer''"
    and "rewritable (get (JObj request) ''authentication.token'' (JStr []))"
  shows "authBlock request =
           Inr \<lparr>auth_mode = ''bearer'', basic = None,
                bearer = Some \<lparr>token = rewritten (get (JObj request) ''authentication.token'' (JStr []))\<rparr>,
                digest = None\<rparr>"
  using assms by (simp add: authBlock_def Let_def ebind_def noAuth_def normalizeVariables_cases)

lemma authBlock_absent:
  "baseGet (JObj request) ''authentication.type'' = JUndefined \<Longrightarrow> authBlock request = Inr noAuth"
  by (rule authBlock_none) (simp_all add: get_def)

text \<open>
  Claim C6, as amended. The authentication block is decided by \<^verbatim>\<open>authentication.type\<close>.
  Any value other than the strings basic and bearer, an absent one included, gives the mode
  none with \<^verbatim>\<open>basic\<close> and \<^verbatim>\<open>bearer\<close> both \<^verbatim>\<open>null\<close>, for every request and without
  raising. The type basic gives the mode basic with the rewritten user name and password,
  the type bearer the mode bearer with the rewritten token, provided each credential that
  is read is a string or a falsy value (absent, \<^verbatim>\<open>null\<close>, empty): on these the rewriter
  returns, on every other value it raises. The block of every node that the transformer
  returns is the one described here.
\<close>

theorem auth_mapping:
  "(get (JObj request) ''authentication.type'' (JStr []) \<noteq> JStr ''basic'' \<longrightarrow>
    get (JObj request) ''authentication.type'' (JStr []) \<noteq> JStr ''bearer'' \<longrightarrow>
      authBlock request =
        Inr \<lparr>auth_mode = ''none'', basic = None, bearer = None, digest = None\<rparr>)
   \<and> (baseGet (JObj request) ''authentication.type'' = JUndefined \<longrightarrow>
      authBlock request =
        Inr \<lparr>auth_mode = ''none'', basic = None, bearer = None, digest = None\<rparr>)
   \<and> (get (JObj request) ''authentication.type'' (JStr []) = JStr ''basic'' \<longrightarrow>
      rewritable (get (JObj request) ''authentication.username'' (JStr [])) \<longrightarrow>
      rewritable (get (JObj request) ''authentication.password'' (JStr [])) \<longrightarrow>
      authBlock request =
        Inr \<lparr>auth_mode = ''basic'',
             basic = Some
               \<lparr>username = rewritten (get (JObj request) ''authentication.username'' (JStr [])),
                password = rewritten (get (JObj request) ''authentication.password'' (JStr []))\<rparr>,
             bearer = None, digest = None\<rparr>)
   \<and> (get (JObj request) ''authentication.type'' (JStr []) = JStr ''bearer'' \<longrightarrow>
      rewritable (get (JObj request) ''authentication.token'' (JStr [])) \<longrightarrow>
      authBlock request =
        Inr \<lparr>auth_mode = ''bearer'', basic = None,
             bearer = Some
               \<lparr>token = rewritten (get (JObj request) ''authentication.token'' (JStr []))\<rparr>,
             digest = None\<rparr>)
   \<and> (transformInsomniaRequestItem E request index allRequests n = Inr (it, n') \<longrightarrow>
      (\<exists>uid nm ty spec. it = Request uid nm ty spec \<and> authBlock request = Inr (req_auth spec)))
   \<and> normalizeVariables v = (if rewritable v then Inr (rewritten v) else Inl TypeError)"
proof (intro conjI impI)
  assume "transformInsomniaRequestItem E request index allRequests n = Inr (it, n')"
  from transform_Inr [OF this]
  show "\<exists>uid nm ty spec. it = Request uid nm ty spec \<and> authBlock request = Inr (req_auth spec)"
    by blast
next
  show "normalizeVariables v = (if rewritable v then Inr (rewritten v) else Inl TypeError)"
    by (rule normalizeVariables_cases)
qed (simp_all add: authBlock_none [unfolded noAuth_def] authBlock_absent [unfolded noAuth_def]
       authBlock_basic authBlock_bearer)

theorem auth_mapping_witness:
  "authBlock oauthRequest = Inr \<lparr>auth_mode = ''none'', basic = None, bearer = None, digest = None\<rparr>
   \<and> authBlock plainRequest = Inr \<lparr>auth_mode = ''none'', basic = None, bearer = None, digest = None\<rparr>
   \<and> authBlock basicRequest =
        Inr \<lparr>auth_mode = ''basic'', basic = Some \<lparr>username = ''{{a_b}}'', password = []\<rparr>,
             bearer = None, digest = None\<rparr>
   \<and> authBlock bearerRequest =
        Inr \<lparr>auth_mode = ''bearer'', basic = None, bearer = Some \<lparr>token = ''{{t_0}}''\<rparr>,
             digest = None\<rparr>
   \<and> (\<exists>uid nm ty spec.
         transformInsomniaRequestItem nullEngine basicRequest 0 [basicRequest] 7
           = Inr (Request uid nm ty spec, 8)
         \<and> authBlock basicRequest = Inr (req_auth spec))"
proof -
  have o1: "get (JObj oauthRequest) ''authentication.type'' (JStr []) \<noteq> JStr ''basic''"
    and o2: "get (JObj oauthRequest) ''authentication.type'' (JStr []) \<noteq> JStr ''bearer''"
    by code_simp+
  have p: "baseGet (JObj plainRequest) ''authentication.type'' = JUndefined"
    by code_simp
  have b1: "get (JObj basicRequest) ''authentication.type'' (JStr []) = JStr ''basic''"
    and b2: "rewritable (get (JObj basicRequest) ''authentication.username'' (JStr []))"
    and b3: "rewritable (get (JObj basicRequest) ''authentication.password'' (JStr []))"
    and b4: "rewritten (get (JObj basicRequest) ''authentication.username'' (JStr [])) = ''{{a_b}}''"
    and b5: "rewritten (get (JObj basicRequest) ''authentication.password'' (JStr [])) = []"
    by code_simp+
  have t1: "get (JObj bearerRequest) ''authentication.type'' (JStr []) = JStr ''bearer''"
    and t2: "rewritable (get (JObj bearerRequest) ''authentication.token'' (JStr []))"
    and t3: "rewritten (get (JObj bearerRequest) ''authentication.token'' (JStr [])) = ''{{t_0}}''"
    by code_simp+
  define it where "it =
     Request 7 (JStr ''r'') ''http-request''
       \<lparr>req_url = ''http://h/{{a_b}}'', req_method = JUndefined,
        req_auth = \<lparr>auth_mode = ''basic'',
                     basic = Some \<lparr>username = ''{{a_b}}'', password = []\<rparr>,
                     bearer = None, digest = None\<rparr>,
        req_headers = [], req_params = [],
        req_body = \<lparr>body_mode = ''json'', body_json = Some ''[{{v}}]'', body_text = None,
                     body_xml = None, formUrlEncoded = [], multipartForm = [],
                     body_graphql = None\<rparr>\<rparr>"
  have run: "transformInsomniaRequestItem nullEngine basicRequest 0 [basicRequest] 7 = Inr (it, 8)"
    unfolding it_def by code_simp
  from auth_mapping [where request = oauthRequest] o1 o2
  have r1: "authBlock oauthRequest
              = Inr \<lparr>auth_mode = ''none'', basic = None, bearer = None, digest = None\<rparr>"
    by blast
  from auth_mapping [where request = plainRequest] p
  have r2: "authBlock plainRequest
              = Inr \<lparr>auth_mode = ''none'', basic = None, bearer = None, digest = None\<rparr>"
    by blast
  from auth_mapping [where request = basicRequest] b1 b2 b3
  have "authBlock basicRequest =
        Inr \<lparr>auth_mode = ''basic'',
             basic = Some
               \<lparr>username = rewritten (get (JObj basicRequest) ''authentication.username'' (JStr [])),
                password = rewritten (get (JObj basicRequest) ''authentication.password'' (JStr []))\<rparr>,
             bearer = None, digest = None\<rparr>"
    by blast
  then have r3: "authBlock basicRequest =
        Inr \<lparr>auth_mode = ''basic'', basic = Some \<lparr>username = ''{{a_b}}'', password = []\<rparr>,
             bearer = None, digest = None\<rparr>"
    by (simp only: b4 b5)
  from auth_mapping [where request = bearerRequest] t1 t2
  have "authBlock bearerRequest =
        Inr \<lparr>auth_mode = ''bearer'', basic = None,
             bearer = Some
               \<lparr>token = rewritten (get (JObj bearerRequest) ''authentication.token'' (JStr []))\<rparr>,
             digest = None\<rparr>"
    by blast
  then have r4: "authBlock bearerRequest =
        Inr \<lparr>auth_mode = ''bearer'', basic = None, bearer = Some \<lparr>token = ''{{t_0}}''\<rparr>,
             digest = None\<rparr>"
    by (simp only: t3)
  from auth_mapping [where request = basicRequest and E = nullEngine and index = 0
                       and allRequests = "[basicRequest]" and n = 7 and it = it and n' = 8] run
  have r5: "\<exists>uid nm ty spec.
         transformInsomniaRequestItem nullEngine basicRequest 0 [basicRequest] 7
           = Inr (Request uid nm ty spec, 8)
         \<and> authBlock basicRequest = Inr (req_auth spec)"
    by auto
  from r1 r2 r3 r4 r5 show ?thesis
    by blast
qed

text \<open>
  The claim as stated, for every source request, fails: with the type basic and a number
  as user name, \<^verbatim>\<open>value.match\<close> is not a function, the block raises, and the request is
  not transformed.
\<close>

theorem auth_mapping_counterexample:
  "get (JObj numericRequest) ''authentication.type'' (JStr []) = JStr ''basic''
   \<and> authBlock numericRequest = Inl TypeError
   \<and> transformInsomniaRequestItem nullEngine numericRequest 0 [numericRequest] 0 = Inl TypeError"
  by code_simp

lemma mimeTypeOf_absent:
  "baseGet (JObj request) ''body.mimeType'' = JUndefined \<Longrightarrow> mimeTypeOf request = Inr []"
  by (simp add: mimeTypeOf_def get_def)

lemma mimeTypeOf_text:
  "get (JObj request) ''body.mimeType'' (JStr []) = JStr s \<Longrightarrow>
     mimeTypeOf request = Inr (takeWhile (\<lambda>c. c \<noteq> CHR '';'') s)"
  by (simp add: mimeTypeOf_def)

lemma bodyBlock_none:
  assumes "mimeTypeOf request = Inr m" "m \<notin> set recognizedMimeTypes"
  shows "bodyBlock E request n = Inr ((''http-request'', noBody), n)"
  using assms
  by (simp add: bodyBlock_def recognizedMimeTypes_def gen_bind_def lift_def ret_def)

lemma bodyBlock_textual:
  assumes "mimeTypeOf request = Inr m" "bodyField request ''text'' = Inr t" "rewritable t"
  shows "m = ''application/json'' \<Longrightarrow> bodyBlock E request n =
           Inr ((''http-request'',
                 noBody\<lparr>body_mode := ''json'', body_json := Some (rewritten t)\<rparr>), n)"
    and "m = ''text/plain'' \<Longrightarrow> bodyBlock E request n =
           Inr ((''http-request'',
                 noBody\<lparr>body_mode := ''text'', body_text := Some (rewritten t)\<rparr>), n)"
    and "m = ''text/xml'' \<or> m = ''application/xml'' \<Longrightarrow> bodyBlock E request n =
           Inr ((''http-request'',
                 noBody\<lparr>body_mode := ''xml'', body_xml := Some (rewritten t)\<rparr>), n)"
    and "m = ''application/graphql'' \<Longrightarrow> bodyBlock E request n =
           Inr ((''graphql-request'',
                 noBody\<lparr>body_mode := ''graphql'',
                        body_graphql := Some (parseGraphQL E (rewritten t))\<rparr>), n)"
  using assms
  by (auto simp: bodyBlock_def gen_bind_def lift_def ret_def ebind_def normalizeVariables_cases)

lemma bodyBlock_params:
  assumes "mimeTypeOf request = Inr m" "bodyField request ''params'' = Inr ps"
  shows "m = ''application/x-www-form-urlencoded'' \<Longrightarrow> each_push formEntry ps n = Inr (es, n') \<Longrightarrow>
         bodyBlock E request n =
           Inr ((''http-request'',
                 noBody\<lparr>body_mode := ''formUrlEncoded'', formUrlEncoded := es\<rparr>), n')"
    and "m = ''multipart/form-data'' \<Longrightarrow> each_push multipartEntry ps n = Inr (es, n') \<Longrightarrow>
         bodyBlock E request n =
           Inr ((''http-request'',
                 noBody\<lparr>body_mode := ''multipartForm'', multipartForm := es\<rparr>), n')"
  using assms
  by (auto simp: bodyBlock_def gen_bind_def lift_def ret_def ebind_def)

lemma form_entries:
  assumes "rewritable (fld kvs ''value'')"
  shows "formEntry (JObj kvs) n =
           Inr (\<lparr>kv_uid = n, kv_name = fld kvs ''name'',
                 kv_value = JStr (rewritten (fld kvs ''value'')),
                 kv_description = fld kvs ''description'', kv_type = None,
                 kv_enabled = (\<not> truthy (fld kvs ''disabled''))\<rparr>, Suc n)"
    and "multipartEntry (JObj kvs) n =
           Inr (\<lparr>kv_uid = n, kv_name = fld kvs ''name'',
                 kv_value = JStr (rewritten (fld kvs ''value'')),
                 kv_description = fld kvs ''description'', kv_type = Some ''text'',
                 kv_enabled = (\<not> truthy (fld kvs ''disabled''))\<rparr>, Suc n)"
  using assms
  by (simp_all add: formEntry_def multipartEntry_def gen_bind_def uuid_def lift_def ebind_def
        normalizeVariables_cases)

lemma parseGraphQL_failure:
  "JSON_parse E t = None \<Longrightarrow> parseGraphQL E t = \<lparr>query = JStr [], variables = JStr []\<rparr>"
  by (simp add: parseGraphQL_def)

text \<open>
  Claim C5, as amended. The base MIME type is the part of \<^verbatim>\<open>body.mimeType\<close> before the
  first semicolon, and the empty string when the property is absent. A base type outside
  the seven recognised ones gives the mode none with no payload, without raising. Each
  recognised type gives the mode of the table with its payload field: the rewritten body
  text for json, text and xml, provided the body text is a string or falsy; the entries
  pushed for the two form types, provided every entry can be built (an entry of an object
  whose value is a string or falsy is built as shown, with the rewritten value); and for
  graphql the node type graphql-request with the parsed query and variables, which are
  both empty when the rewritten text is not JSON. The body of every node that the
  transformer returns is the one described here.
\<close>

theorem body_mapping:
  "(baseGet (JObj request) ''body.mimeType'' = JUndefined \<longrightarrow> mimeTypeOf request = Inr [])
   \<and> (get (JObj request) ''body.mimeType'' (JStr []) = JStr s \<longrightarrow>
        mimeTypeOf request = Inr (takeWhile (\<lambda>c. c \<noteq> CHR '';'') s))
   \<and> (mimeTypeOf request = Inr m \<longrightarrow> m \<notin> set recognizedMimeTypes \<longrightarrow>
        bodyBlock E request n =
          Inr ((''http-request'',
                \<lparr>body_mode = ''none'', body_json = None, body_text = None, body_xml = None,
                 formUrlEncoded = [], multipartForm = [], body_graphql = None\<rparr>), n))
   \<and> (mimeTypeOf request = Inr m \<longrightarrow> bodyField request ''text'' = Inr t \<longrightarrow> rewritable t \<longrightarrow>
          (m = ''application/json'' \<longrightarrow> bodyBlock E request n =
             Inr ((''http-request'',
                   noBody\<lparr>body_mode := ''json'', body_json := Some (rewritten t)\<rparr>), n))
        \<and> (m = ''text/plain'' \<longrightarrow> bodyBlock E request n =
             Inr ((''http-request'',
                   noBody\<lparr>body_mode := ''text'', body_text := Some (rewritten t)\<rparr>), n))
        \<and> (m = ''text/xml'' \<or> m = ''application/xml'' \<longrightarrow> bodyBlock E request n =
             Inr ((''http-request'',
                   noBody\<lparr>body_mode := ''xml'', body_xml := Some (rewritten t)\<rparr>), n))
        \<and> (m = ''application/graphql'' \<longrightarrow> bodyBlock E request n =
             Inr ((''graphql-request'',
                   noBody\<lparr>body_mode := ''graphql'',
                          body_graphql := Some (parseGraphQL E (rewritten t))\<rparr>), n)))
   \<and> (mimeTypeOf request = Inr m \<longrightarrow> bodyField request ''params'' = Inr ps \<longrightarrow>
          (m = ''application/x-www-form-urlencoded'' \<longrightarrow>
             each_push formEntry ps n = Inr (es, n') \<longrightarrow>
             bodyBlock E request n =
               Inr ((''http-request'',
                     noBody\<lparr>body_mode := ''formUrlEncoded'', formUrlEncoded := es\<rparr>), n'))
        \<and> (m = ''multipart/form-data'' \<longrightarrow>
             each_push multipartEntry ps n = Inr (es, n') \<longrightarrow>
             bodyBlock E request n =
               Inr ((''http-request'',
                     noBody\<lparr>body_mode := ''multipartForm'', multipartForm := es\<rparr>), n')))
   \<and> (rewritable (fld kvs ''value'') \<longrightarrow>
        formEntry (JObj kvs) n =
          Inr (\<lparr>kv_uid = n, kv_name = fld kvs ''name'',
                kv_value = JStr (rewritten (fld kvs ''value'')),
                kv_description = fld kvs ''description'', kv_type = None,
                kv_enabled = (\<not> truthy (fld kvs ''disabled''))\<rparr>, Suc n)
        \<and> multipartEntry (JObj kvs) n =
          Inr (\<lparr>kv_uid = n, kv_name = fld kvs ''name'',
                kv_value = JStr (rewritten (fld kvs ''value'')),
                kv_description = fld kvs ''description'', kv_type = Some ''text'',
                kv_enabled = (\<not> truthy (fld kvs ''disabled''))\<rparr>, Suc n))
   \<and> (JSON_parse E t' = None \<longrightarrow>
        parseGraphQL E t' = \<lparr>query = JStr [], variables = JStr []\<rparr>)
   \<and> (transformInsomniaRequestItem E request index allRequests k = Inr (it, k') \<longrightarrow>
        (\<exists>uid nm ty spec k0. it = Request uid nm ty spec
            \<and> bodyBlock E request k0 = Inr ((ty, req_body spec), k')))"
proof (intro conjI impI)
  assume "transformInsomniaRequestItem E request index allRequests k = Inr (it, k')"
  from transform_Inr [OF this]
  show "\<exists>uid nm ty spec k0. it = Request uid nm ty spec
            \<and> bodyBlock E request k0 = Inr ((ty, req_body spec), k')"
    by blast
qed (simp_all add: mimeTypeOf_absent mimeTypeOf_text bodyBlock_none [unfolded noBody_def]
       bodyBlock_textual bodyBlock_params parseGraphQL_failure form_entries)

theorem body_mapping_witness:
  "mimeTypeOf [] = Inr []
   \<and> bodyBlock nullEngine [] 3 =
       Inr ((''http-request'',
             \<lparr>body_mode = ''none'', body_json = None, body_text = None, body_xml = None,
              formUrlEncoded = [], multipartForm = [], body_graphql = None\<rparr>), 3)
   \<and> mimeTypeOf plainRequest = Inr ''image/png''
   \<and> bodyBlock nullEngine plainRequest 3 =
       Inr ((''http-request'',
             \<lparr>body_mode = ''none'', body_json = None, body_text = None, body_xml = None,
              formUrlEncoded = [], multipartForm = [], body_graphql = None\<rparr>), 3)
   \<and> mimeTypeOf basicRequest = Inr ''application/json''
   \<and> bodyBlock nullEngine basicRequest 3 =
       Inr ((''http-request'',
             \<lparr>body_mode = ''json'', body_json = Some ''[{{v}}]'', body_text = None,
              body_xml = None, formUrlEncoded = [], multipartForm = [],
              body_graphql = None\<rparr>), 3)
   \<and> bodyBlock nullEngine bearerRequest 3 =
       Inr ((''graphql-request'',
             \<lparr>body_mode = ''graphql'', body_json = None, body_text = None, body_xml = None,
              formUrlEncoded = [], multipartForm = [],
              body_graphql = Some \<lparr>query = JStr [], variables = JStr []\<rparr>\<rparr>), 3)
   \<and> bodyBlock nullEngine oauthRequest 3 =
       Inr ((''http-request'',
             \<lparr>body_mode = ''formUrlEncoded'', body_json = None, body_text = None,
              body_xml = None,
              formUrlEncoded =
                [\<lparr>kv_uid = 3, kv_name = JStr ''a'', kv_value = JStr ''{{b}}'',
                  kv_description = JUndefined, kv_type = None, kv_enabled = False\<rparr>],
              multipartForm = [], body_graphql = None\<rparr>), 4)"
proof -
  note bm = body_mapping [where E = nullEngine and n = 3]
  have a0: "baseGet (JObj []) ''body.mimeType'' = JUndefined"
    and a1: "[] \<notin> set recognizedMimeTypes"
    by code_simp+
  from bm [where request = "[]"] a0
  have m0: "mimeTypeOf [] = Inr []"
    by blast
  from bm [where request = "[]" and m = "[]"] m0 a1
  have r0: "bodyBlock nullEngine [] 3 =
       Inr ((''http-request'',
             \<lparr>body_mode = ''none'', body_json = None, body_text = None, body_xml = None,
              formUrlEncoded = [], multipartForm = [], body_graphql = None\<rparr>), 3)"
    by blast
  have p0: "get (JObj plainRequest) ''body.mimeType'' (JStr []) = JStr ''image/png''"
    and p1: "takeWhile (\<lambda>c. c \<noteq> CHR '';'') ''image/png'' = ''image/png''"
    and p2: "''image/png'' \<notin> set recognizedMimeTypes"
    by code_simp+
  from bm [where request = plainRequest and s = "''image/png''"] p0 p1
  have m1: "mimeTypeOf plainRequest = Inr ''image/png''"
    by simp
  from bm [where request = plainRequest and m = "''image/png''"] m1 p2
  have r1: "bodyBlock nullEngine plainRequest 3 =
       Inr ((''http-request'',
             \<lparr>body_mode = ''none'', body_json = None, body_text = None, body_xml = None,
              formUrlEncoded = [], multipartForm = [], body_graphql = None\<rparr>), 3)"
    by blast
  have j0: "get (JObj basicRequest) ''body.mimeType'' (JStr [])
              = JStr ''application/json; charset=utf-8''"
    and j1: "takeWhile (\<lambda>c. c \<noteq> CHR '';'') ''application/json; charset=utf-8''
              = ''application/json''"
    and j2: "bodyField basicRequest ''text'' = Inr (JStr ''[{{ _.v }}]'')"
    and j3: "rewritable (JStr ''[{{ _.v }}]'')"
    and j4: "rewritten (JStr ''[{{ _.v }}]'') = ''[{{v}}]''"
    by code_simp+
  from bm [where request = basicRequest and s = "''application/json; charset=utf-8''"] j0 j1
  have m2: "mimeTypeOf basicRequest = Inr ''application/json''"
    by simp
  from bm [where request = basicRequest and m = "''application/json''"
              and t = "JStr ''[{{ _.v }}]''"] m2 j2 j3
  have "bodyBlock nullEngine basicRequest 3 =
       Inr ((''http-request'',
             noBody\<lparr>body_mode := ''json'',
                    body_json := Some (rewritten (JStr ''[{{ _.v }}]''))\<rparr>), 3)"
    by simp
  then have r2: "bodyBlock nullEngine basicRequest 3 =
       Inr ((''http-request'',
             \<lparr>body_mode = ''json'', body_json = Some ''[{{v}}]'', body_text = None,
              body_xml = None, formUrlEncoded = [], multipartForm = [],
              body_graphql = None\<rparr>), 3)"
    by (simp only: j4) (simp add: noBody_def)
  have g0: "mimeTypeOf bearerRequest = Inr ''application/graphql''"
    and g1: "bodyField bearerRequest ''text'' = Inr (JStr ''{'')"
    and g2: "rewritable (JStr ''{'')"
    and g3: "normalizeText ''{'' = ''{''"
    and g4: "JSON_parse nullEngine ''{'' = None"
    by code_simp+
  from bm [where request = bearerRequest and m = "''application/graphql''"
              and t = "JStr ''{''" and t' = "''{''"] g0 g1 g2 g4
  have r3: "bodyBlock nullEngine bearerRequest 3 =
       Inr ((''graphql-request'',
             \<lparr>body_mode = ''graphql'', body_json = None, body_text = None, body_xml = None,
              formUrlEncoded = [], multipartForm = [],
              body_graphql = Some \<lparr>query = JStr [], variables = JStr []\<rparr>\<rparr>), 3)"
    by (simp add: noBody_def g3)
  define ps where "ps = JArr [JObj [(''name'', JStr ''a''), (''value'', JStr ''{{ b }}''),
                                     (''disabled'', JBool True)]]"
  define es where "es = [\<lparr>kv_uid = 3, kv_name = JStr ''a'', kv_value = JStr ''{{b}}'',
                  kv_description = JUndefined, kv_type = None, kv_enabled = False\<rparr>]"
  have f0: "mimeTypeOf oauthRequest = Inr ''application/x-www-form-urlencoded''"
    and f1: "bodyField oauthRequest ''params'' = Inr ps"
    and f2: "each_push formEntry ps 3 = Inr (es, 4)"
    unfolding ps_def es_def by code_simp+
  from bm [where request = oauthRequest and m = "''application/x-www-form-urlencoded''"
              and ps = ps and es = es and n' = 4] f0 f1 f2
  have r4: "bodyBlock nullEngine oauthRequest 3 =
       Inr ((''http-request'',
             \<lparr>body_mode = ''formUrlEncoded'', body_json = None, body_text = None,
              body_xml = None,
              formUrlEncoded =
                [\<lparr>kv_uid = 3, kv_name = JStr ''a'', kv_value = JStr ''{{b}}'',
                  kv_description = JUndefined, kv_type = None, kv_enabled = False\<rparr>],
              multipartForm = [], body_graphql = None\<rparr>), 4)"
    by (simp add: noBody_def es_def)
  from m0 r0 m1 r1 m2 r2 r3 r4 show ?thesis
    by blast
qed

text \<open>
  The claim as stated, for every source request, fails: with the type
  \<^verbatim>\<open>application/json\<close> and a number as body text the rewriter raises, no body is
  produced, and the request is not transformed.
\<close>

theorem body_mapping_counterexample:
  "mimeTypeOf numericBodyRequest = Inr ''application/json''
   \<and> bodyBlock nullEngine numericBodyRequest 0 = Inl TypeError
   \<and> transformInsomniaRequestItem nullEngine numericBodyRequest 0 [numericBodyRequest] 0
       = Inl TypeError"
  by code_simp

section \<open>Properties of the conversion\<close>

lemma hasType_nullish: "nullish r \<Longrightarrow> hasType t r = Inl TypeError"
  by (auto simp: nullish_def hasType_def ebind_def)

lemma hasType_properties: "\<not> nullish r \<Longrightarrow> hasType t r = Inr (isType t (properties r))"
  by (cases r) (simp_all add: nullish_def hasType_def ebind_def isType_def properties_def fld_def)

lemma isType_properties_object: "isType t (properties r) \<Longrightarrow> r = JObj (properties r)"
  by (cases r) (simp_all add: isType_def properties_def fld_def)

lemma requestOrFolder_nullish: "nullish r \<Longrightarrow> requestOrFolder r = Inl TypeError"
  by (simp add: requestOrFolder_def hasType_nullish ebind_def)

lemma requestOrFolder_properties:
  "\<not> nullish r \<Longrightarrow>
     requestOrFolder r
       = Inr (isType ''request'' (properties r) \<or> isType ''request_group'' (properties r))"
  by (simp add: requestOrFolder_def hasType_properties ebind_def)

lemma find_from_none:
  "list_all (\<lambda>r. \<not> nullish r \<and> \<not> isType t (properties r)) rs \<Longrightarrow>
     find_from (hasType t) rs = Inr JUndefined"
  by (induction rs) (simp_all add: hasType_properties ebind_def)

lemma find_from_raises:
  "list_ex nullish rs \<Longrightarrow> list_all (\<lambda>r. \<not> isType t (properties r)) rs \<Longrightarrow>
     find_from (hasType t) rs = Inl TypeError"
proof (induction rs)
  case Nil
  then show ?case by simp
next
  case (Cons r rs)
  show ?case
  proof (cases "nullish r")
    case True
    then show ?thesis by (simp add: hasType_nullish ebind_def)
  next
    case False
    with Cons show ?thesis by (simp add: hasType_properties ebind_def)
  qed
qed

text \<open>
  Claim C9, as amended. The claim speaks of every parsed document whose resource list
  holds no workspace. The callback of line 258 reads \<^verbatim>\<open>resource._type\<close> of every element,
  and \<^verbatim>\<open>find\<close> is a method of arrays only; no element and no type is checked before. So
  the claim holds for the documents whose \<^verbatim>\<open>resources\<close> is absent, or is an array none of
  whose elements is \<^verbatim>\<open>null\<close> or \<^verbatim>\<open>undefined\<close>: with no workspace among the elements, the
  conversion rejects with the message of line 261, which is not the message of the
  \<^verbatim>\<open>catch\<close> clause. Line 260 does not return, so the \<^verbatim>\<open>try\<close> block goes on: it raises at
  its next statement, line 264, which reads the name of \<^verbatim>\<open>undefined\<close>; the promise is
  already rejected, and the second \<^verbatim>\<open>reject\<close> has no effect. The block stops there with
  \<^verbatim>\<open>TypeError\<close> for every call depth, also for depth 0, at which a call of
  \<open>createEnvironments\<close> or \<open>createFolderStructure\<close> would raise \<^verbatim>\<open>RangeError\<close>: neither
  is called. No collection is resolved. For the other documents without a workspace, whose
  \<^verbatim>\<open>resources\<close> is not an array or holds a \<^verbatim>\<open>null\<close>, line 258 raises before line 260 is
  reached, and the conversion rejects with the message of the \<^verbatim>\<open>catch\<close> clause.
\<close>

theorem no_workspace_rejects:
  "(get data ''resources'' (JArr []) = JArr rs
      \<and> list_all (\<lambda>r. \<not> nullish r \<and> \<not> isType ''workspace'' (properties r)) rs \<longrightarrow>
        parseInsomniaCollection E depth data n = Some (Rejected notFoundMessage)
        \<and> array_find (hasType ''workspace'') (JArr rs) = Inr JUndefined
        \<and> convert E depth (JArr rs) JUndefined c k = Inl TypeError)
   \<and> (baseGet missing ''resources'' = JUndefined \<longrightarrow>
        parseInsomniaCollection E depth missing n = Some (Rejected notFoundMessage))
   \<and> (\<not> isArray (get other ''resources'' (JArr [])) \<longrightarrow>
        parseInsomniaCollection E depth other n = Some (Rejected parsingErrorMessage))
   \<and> (get holed ''resources'' (JArr []) = JArr hs \<and> list_ex nullish hs
        \<and> list_all (\<lambda>r. \<not> isType ''workspace'' (properties r)) hs \<longrightarrow>
        parseInsomniaCollection E depth holed n = Some (Rejected parsingErrorMessage))
   \<and> notFoundMessage \<noteq> parsingErrorMessage
   \<and> createEnvironments 0 resources p k = Inl RangeError
   \<and> createFolderStructure E 0 resources p k = Inl RangeError"
proof -
  have raises: "convert E depth v JUndefined c' k' = Inl TypeError" for v c' k'
    by (simp add: convert_def gen_bind_def lift_def)
  have none: "parseInsomniaCollection E depth d n = Some (Rejected notFoundMessage)"
    if "get d ''resources'' (JArr []) = JArr xs"
      and "list_all (\<lambda>r. \<not> nullish r \<and> \<not> isType ''workspace'' (properties r)) xs" for d xs
    using that raises
    by (simp add: parseInsomniaCollection_def array_find_def find_from_none settle_def)
  have absent_case: "parseInsomniaCollection E depth missing n = Some (Rejected notFoundMessage)"
    if "baseGet missing ''resources'' = JUndefined"
  proof (rule none)
    from that show "get missing ''resources'' (JArr []) = JArr []"
      by (simp add: get_def)
  qed simp
  have other_case: "parseInsomniaCollection E depth other n = Some (Rejected parsingErrorMessage)"
    if "\<not> isArray (get other ''resources'' (JArr []))"
    using that
    by (cases "get other ''resources'' (JArr [])")
       (simp_all add: parseInsomniaCollection_def array_find_def settle_def)
  have null_case: "parseInsomniaCollection E depth holed n = Some (Rejected parsingErrorMessage)"
    if "get holed ''resources'' (JArr []) = JArr hs" and "list_ex nullish hs"
      and "list_all (\<lambda>r. \<not> isType ''workspace'' (properties r)) hs"
    using that
    by (simp add: parseInsomniaCollection_def array_find_def find_from_raises settle_def)
  have messages: "notFoundMessage \<noteq> parsingErrorMessage"
    by (simp add: notFoundMessage_def parsingErrorMessage_def)
  from none [of data rs] absent_case other_case null_case messages raises show ?thesis
    by (simp add: array_find_def find_from_none raise_def)
qed

theorem no_workspace_rejects_witness:
  "get (JObj [(''resources'', JArr (JNum 7 # map JObj (tl minimalExport)))]) ''resources'' (JArr [])
     = JArr (JNum 7 # map JObj (tl minimalExport))
   \<and> list_all (\<lambda>r. \<not> nullish r \<and> \<not> isType ''workspace'' (properties r))
        (JNum 7 # map JObj (tl minimalExport))
   \<and> parseInsomniaCollection nullEngine 0
        (JObj [(''resources'', JArr (JNum 7 # map JObj (tl minimalExport)))]) 0
       = Some (Rejected ''Collection not found inside Insomnia export'')
   \<and> baseGet (JObj [(''__export_format'', JNum 4)]) ''resources'' = JUndefined
   \<and> parseInsomniaCollection nullEngine 5 (JObj [(''__export_format'', JNum 4)]) 0
       = Some (Rejected ''Collection not found inside Insomnia export'')
   \<and> \<not> isArray (get (JObj [(''resources'', JStr ''none'')]) ''resources'' (JArr []))
   \<and> parseInsomniaCollection nullEngine 5 (JObj [(''resources'', JStr ''none'')]) 0
       = Some (Rejected ''An error occurred while parsing the Insomnia collection'')
   \<and> get (JObj [(''resources'', JArr [JObj [(''_type'', JStr ''request'')], JNull])])
         ''resources'' (JArr [])
       = JArr [JObj [(''_type'', JStr ''request'')], JNull]
   \<and> list_ex nullish [JObj [(''_type'', JStr ''request'')], JNull]
   \<and> list_all (\<lambda>r. \<not> isType ''workspace'' (properties r))
        [JObj [(''_type'', JStr ''request'')], JNull]
   \<and> parseInsomniaCollection nullEngine 5
        (JObj [(''resources'', JArr [JObj [(''_type'', JStr ''request'')], JNull])]) 0
       = Some (Rejected ''An error occurred while parsing the Insomnia collection'')"
proof -
  let ?rs = "JNum 7 # map JObj (tl minimalExport)"
  let ?rs2 = "[JObj [(''_type'', JStr ''request'')], JNull]"
  have a1: "get (JObj [(''resources'', JArr ?rs)]) ''resources'' (JArr []) = JArr ?rs"
    by code_simp
  have a2: "list_all (\<lambda>r. \<not> nullish r \<and> \<not> isType ''workspace'' (properties r)) ?rs"
    by code_simp
  have b: "baseGet (JObj [(''__export_format'', JNum 4)]) ''resources'' = JUndefined"
    by code_simp
  have c: "\<not> isArray (get (JObj [(''resources'', JStr ''none'')]) ''resources'' (JArr []))"
    by code_simp
  have d1: "get (JObj [(''resources'', JArr ?rs2)]) ''resources'' (JArr []) = JArr ?rs2"
    by code_simp
  have d2: "list_ex nullish ?rs2"
    by code_simp
  have d3: "list_all (\<lambda>r. \<not> isType ''workspace'' (properties r)) ?rs2"
    by code_simp
  from no_workspace_rejects
         [where data = "JObj [(''resources'', JArr ?rs)]" and rs = ?rs and E = nullEngine
            and depth = 0 and n = 0]
       a1 a2
  have r1: "parseInsomniaCollection nullEngine 0 (JObj [(''resources'', JArr ?rs)]) 0
              = Some (Rejected ''Collection not found inside Insomnia export'')"
    by (simp add: notFoundMessage_def)
  from no_workspace_rejects
         [where missing = "JObj [(''__export_format'', JNum 4)]"
            and other = "JObj [(''resources'', JStr ''none'')]"
            and holed = "JObj [(''resources'', JArr ?rs2)]" and hs = ?rs2
            and E = nullEngine and depth = 5 and n = 0]
       b c d1 d2 d3
  have r2: "parseInsomniaCollection nullEngine 5 (JObj [(''__export_format'', JNum 4)]) 0
              = Some (Rejected ''Collection not found inside Insomnia export'')"
    and r3: "parseInsomniaCollection nullEngine 5 (JObj [(''resources'', JStr ''none'')]) 0
              = Some (Rejected ''An error occurred while parsing the Insomnia collection'')"
    and r4: "parseInsomniaCollection nullEngine 5 (JObj [(''resources'', JArr ?rs2)]) 0
              = Some (Rejected ''An error occurred while parsing the Insomnia collection'')"
    by (simp_all add: notFoundMessage_def parsingErrorMessage_def)
  from a1 a2 r1 b r2 c r3 d1 d2 d3 r4 show ?thesis
    by blast
qed

text \<open>
  The claim as stated fails. The only resource of the first document is \<^verbatim>\<open>null\<close>, the
  resources of the second are the text \<^verbatim>\<open>none\<close>, and \<^verbatim>\<open>resources\<close> is \<^verbatim>\<open>null\<close> in
  the third: no resource is of type workspace, line 258 raises, and the
  conversion rejects with the message of the \<^verbatim>\<open>catch\<close> clause, not with the message of
  line 261.
\<close>

theorem null_resource_rejects_generically:
  "filter (\<lambda>r. isType ''workspace'' (properties r)) [JNull] = []
   \<and> parseInsomniaCollection nullEngine 3 (JObj [(''resources'', JArr [JNull])]) 0
       = Some (Rejected ''An error occurred while parsing the Insomnia collection'')
   \<and> parseInsomniaCollection nullEngine 3 (JObj [(''resources'', JStr ''none'')]) 0
       = Some (Rejected ''An error occurred while parsing the Insomnia collection'')
   \<and> parseInsomniaCollection nullEngine 3 (JObj [(''resources'', JNull)]) 0
       = Some (Rejected ''An error occurred while parsing the Insomnia collection'')
   \<and> ''An error occurred while parsing the Insomnia collection''
       \<noteq> ''Collection not found inside Insomnia export''"
  by code_simp

section \<open>Properties of the tree builder\<close>

lemma foldersFirst_index:
  "foldersFirst its \<longleftrightarrow>
     (\<forall>i j. i < length its \<and> j < length its \<and> \<not> isFolder (its ! i) \<and> isFolder (its ! j) \<longrightarrow> j < i)"
proof (induction its)
  case Nil
  then show ?case by (simp add: foldersFirst_def)
next
  case (Cons x xs)
  show ?case
  proof (cases "isFolder x")
    case True
    have "(\<forall>i j. i < length (x # xs) \<and> j < length (x # xs) \<and> \<not> isFolder ((x # xs) ! i)
               \<and> isFolder ((x # xs) ! j) \<longrightarrow> j < i)
          \<longleftrightarrow> (\<forall>i j. i < length xs \<and> j < length xs \<and> \<not> isFolder (xs ! i)
               \<and> isFolder (xs ! j) \<longrightarrow> j < i)" (is "?L \<longleftrightarrow> ?R")
    proof
      assume l: ?L
      show ?R
      proof (intro allI impI)
        fix i j assume "i < length xs \<and> j < length xs \<and> \<not> isFolder (xs ! i) \<and> isFolder (xs ! j)"
        with l [rule_format, of "Suc i" "Suc j"] show "j < i" by simp
      qed
    next
      assume r: ?R
      show ?L
      proof (intro allI impI)
        fix i j
        assume a: "i < length (x # xs) \<and> j < length (x # xs) \<and> \<not> isFolder ((x # xs) ! i)
                     \<and> isFolder ((x # xs) ! j)"
        with True obtain i' where i': "i = Suc i'" by (cases i) auto
        show "j < i"
        proof (cases j)
          case 0
          with i' show ?thesis by simp
        next
          case (Suc j')
          with a i' r [rule_format, of i' j'] show ?thesis by simp
        qed
      qed
    qed
    with True Cons.IH show ?thesis
      by (simp add: foldersFirst_def)
  next
    case False
    have "list_all (\<lambda>y. \<not> isFolder y) xs \<longleftrightarrow>
          (\<forall>i j. i < length (x # xs) \<and> j < length (x # xs) \<and> \<not> isFolder ((x # xs) ! i)
               \<and> isFolder ((x # xs) ! j) \<longrightarrow> j < i)" (is "?A \<longleftrightarrow> ?L")
    proof
      assume a: ?A
      show ?L
      proof (intro allI impI)
        fix i j
        assume h: "i < length (x # xs) \<and> j < length (x # xs) \<and> \<not> isFolder ((x # xs) ! i)
                     \<and> isFolder ((x # xs) ! j)"
        with False obtain j' where j': "j = Suc j'" by (cases j) auto
        with h have "isFolder (xs ! j')" "j' < length xs" by auto
        with a show "j < i" by (auto simp: list_all_length)
      qed
    next
      assume l: ?L
      show ?A
        unfolding list_all_length
      proof (intro allI impI)
        fix k assume k: "k < length xs"
        show "\<not> isFolder (xs ! k)"
        proof
          assume "isFolder (xs ! k)"
          with l [rule_format, of 0 "Suc k"] k False show False by simp
        qed
      qed
    qed
    with False show ?thesis
      by (simp add: foldersFirst_def)
  qed
qed

lemma list_all_dropWhile: "list_all Q ys \<Longrightarrow> list_all Q (dropWhile P ys)"
  by (induction ys) simp_all

lemma foldersFirst_folders_append:
  assumes "list_all isFolder xs" "list_all (\<lambda>x. \<not> isFolder x) ys"
  shows "foldersFirst (xs @ ys)"
proof -
  from assms(1) have "dropWhile isFolder (xs @ ys) = dropWhile isFolder ys"
    by (intro dropWhile_append2) (simp add: list_all_iff)
  with assms(2) show ?thesis
    by (simp add: foldersFirst_def list_all_dropWhile)
qed

lemma foldersFirst_append:
  assumes "foldersFirst xs" "list_all (\<lambda>x. \<not> isFolder x) ys"
  shows "foldersFirst (xs @ ys)"
proof (cases "list_all isFolder xs")
  case True
  from True assms(2) show ?thesis
    by (rule foldersFirst_folders_append)
next
  case False
  then obtain x where "x \<in> set xs" "\<not> isFolder x"
    by (auto simp: list_all_iff)
  then have "dropWhile isFolder (xs @ ys) = dropWhile isFolder xs @ ys"
    by (intro dropWhile_append1)
  with assms show ?thesis
    by (simp add: foldersFirst_def)
qed

lemma map_from_all:
  assumes "map_from f i xs n = Inr (ys, n')"
    and "\<And>x j m y m'. x \<in> set xs \<Longrightarrow> f x j m = Inr (y, m') \<Longrightarrow> P y"
  shows "list_all P ys"
  using assms
proof (induction xs arbitrary: i n ys n')
  case Nil
  then show ?case by (simp add: ret_eq_Inr)
next
  case (Cons x xs)
  from Cons.prems(1) obtain y m ys' where
    y: "f x i n = Inr (y, m)" and rest: "map_from f (Suc i) xs m = Inr (ys', n')" and ys: "ys = y # ys'"
    by (auto simp: gen_bind_eq_Inr ret_eq_Inr)
  from Cons.prems(2) [OF _ y] have "P y" by simp
  moreover have "list_all P ys'"
  proof (rule Cons.IH [OF rest])
    fix x' j k z k'
    assume "x' \<in> set xs" "f x' j k = Inr (z, k')"
    then show "P z"
      using Cons.prems(2) [of x' j k z k'] by simp
  qed
  ultimately show ?case using ys by simp
qed

lemma array_map_all:
  assumes "array_map f xs n = Inr (ys, n')"
    and "\<And>x j m y m'. x \<in> set xs \<Longrightarrow> f x j xs m = Inr (y, m') \<Longrightarrow> P y"
  shows "list_all P ys"
  using assms(1) unfolding array_map_def
  by (rule map_from_all) (rule assms(2))

lemma leaves_requests:
  assumes "array_map (transformInsomniaRequestItem E) xs n = Inr (ys, n')"
  shows "list_all (\<lambda>y. \<not> isFolder y \<and> orderedTree y) ys"
proof (rule array_map_all [OF assms])
  fix x j m y m'
  assume "transformInsomniaRequestItem E x j xs m = Inr (y, m')"
  from transform_Inr [OF this] show "\<not> isFolder y \<and> orderedTree y"
    by auto
qed

lemma createFolderStructure_ordered:
  "createFolderStructure E depth resources parentId n = Inr (its, n') \<Longrightarrow>
     foldersFirst its \<and> list_all orderedTree its"
proof (induction depth arbitrary: parentId n its n')
  case 0
  then show ?case by (simp add: raise_def)
next
  case (Suc depth)
  let ?groups = "filter (\<lambda>resource. isType ''request_group'' resource
                     \<and> childOf (defaultNull parentId) resource) resources"
  let ?requests = "filter (\<lambda>resource. isType ''request'' resource
                     \<and> childOf (defaultNull parentId) resource) resources"
  let ?inner = "\<lambda>folder. filter (\<lambda>resource. isType ''request'' resource
                                   \<and> childOf (fld folder ''_id'') resource) resources"
  let ?build = "\<lambda>folder index allFolder.
      gen_bind (lift (addSuffixToDuplicateName folder index allFolder)) (\<lambda>name.
        gen_bind uuid (\<lambda>u.
          gen_bind (createFolderStructure E depth resources (fld folder ''_id'')) (\<lambda>sub.
            gen_bind (array_map (transformInsomniaRequestItem E) (?inner folder))
              (\<lambda>leaves. ret (Folder u name (sub @ leaves))))))"
  from Suc.prems obtain folders m leaves where
    folders: "array_map ?build ?groups n = Inr (folders, m)"
    and leaves: "array_map (transformInsomniaRequestItem E) ?requests m = Inr (leaves, n')"
    and its: "its = folders @ leaves"
    by (auto simp: Let_def gen_bind_eq_Inr ret_eq_Inr)
  have "list_all (\<lambda>y. isFolder y \<and> orderedTree y) folders"
  proof (rule array_map_all [OF folders], goal_cases)
    case (1 x j k y k')
    from 1(2) obtain u nm sub ls k1 k2 where
      sub: "createFolderStructure E depth resources (fld x ''_id'') k1 = Inr (sub, k2)"
      and ls: "array_map (transformInsomniaRequestItem E) (?inner x) k2 = Inr (ls, k')"
      and y: "y = Folder u nm (sub @ ls)"
      unfolding gen_bind_eq_Inr ret_eq_Inr by blast
    from Suc.IH [OF sub] have s: "foldersFirst sub" "list_all orderedTree sub" by simp_all
    from leaves_requests [OF ls]
    have l: "list_all (\<lambda>y. \<not> isFolder y) ls" "list_all orderedTree ls"
      by (simp_all add: list_all_iff)
    from s l show ?case
      by (simp add: y foldersFirst_append)
  qed
  then have f: "list_all isFolder folders" "list_all orderedTree folders"
    by (simp_all add: list_all_iff)
  from leaves_requests [OF leaves]
  have l: "list_all (\<lambda>y. \<not> isFolder y) leaves" "list_all orderedTree leaves"
    by (simp_all add: list_all_iff)
  from f l show ?case
    by (simp add: its foldersFirst_folders_append)
qed

text \<open>
  Claim C8. Whenever the tree builder returns, for any resource list in any declaration
  order and any parent, the returned level lists all its folders before all its requests,
  and so does the item list of every folder below it. (Line 287 appends to the sub-level,
  which by line 291 is folders then requests, only requests; line 291 appends requests to
  folders.)
\<close>

theorem folders_before_requests:
  "createFolderStructure E depth resources parentId n = Inr (its, n') \<Longrightarrow>
     foldersFirst its \<and> list_all orderedTree its"
  by (rule createFolderStructure_ordered)

theorem folders_before_requests_witness:
  "\<exists>its n'. createFolderStructure nullEngine 3 mixedExport (JStr ''wrk_1'') 0 = Inr (its, n')
      \<and> map isFolder its = [True, False]
      \<and> foldersFirst its \<and> list_all orderedTree its"
proof -
  have "case createFolderStructure nullEngine 3 mixedExport (JStr ''wrk_1'') 0 of
          Inl err \<Rightarrow> False
        | Inr (its, n') \<Rightarrow> map isFolder its = [True, False]"
    by code_simp
  then obtain its n' where
    run: "createFolderStructure nullEngine 3 mixedExport (JStr ''wrk_1'') 0 = Inr (its, n')"
    and shape: "map isFolder its = [True, False]"
    by (auto split: sum.splits)
  from folders_before_requests [OF run] run shape show ?thesis
    by - (rule exI [of _ its], rule exI [of _ n'], simp)
qed

section \<open>Properties of the environment transformer\<close>

lemma abEnvironment_result:
  "environmentResult abEnvironment n =
     Inr (\<lparr>env_uid = Suc (Suc n), env_name = JStr ''Base'',
           env_variables =
             [\<lparr>var_uid = n, var_name = ''a_b'', var_value = ''1'', var_enabled = True,
               var_secret = False, var_type = ''text''\<rparr>,
              \<lparr>var_uid = Suc n, var_name = ''a_c'', var_value = ''2'', var_enabled = True,
               var_secret = False, var_type = ''text''\<rparr>]\<rparr>,
          Suc (Suc (Suc n)))"
proof -
  have f: "flattenedData abEnvironment = [(''a_b'', JNum 1), (''a_c'', JNum 2)]"
    by code_simp
  have nm: "fld abEnvironment ''name'' = JStr ''Base''"
    by code_simp
  have t: "toString (JNum 1) = Inr ''1''" "toString (JNum 2) = Inr ''2''"
    by code_simp+
  have v: "normalizeVariables (JStr ''1'') = Inr ''1''" "normalizeVariables (JStr ''2'') = Inr ''2''"
    by code_simp+
  show ?thesis
    by (simp add: environmentResult_def f nm variableEntry_def gen_bind_def uuid_def lift_def
          ebind_def ret_def t v)
qed

lemma map_from_props:
  assumes "map_from f i xs n = Inr (ys, n')"
    and "\<And>x j m y m'. x \<in> set xs \<Longrightarrow> f x j m = Inr (y, m') \<Longrightarrow> P x y"
  shows "list_all2 P xs ys"
  using assms
proof (induction xs arbitrary: i n ys n')
  case Nil
  then show ?case by (simp add: ret_eq_Inr)
next
  case (Cons x xs)
  from Cons.prems(1) obtain y m ys' where
    y: "f x i n = Inr (y, m)" and rest: "map_from f (Suc i) xs m = Inr (ys', n')"
    and ys: "ys = y # ys'"
    by (auto simp: gen_bind_eq_Inr ret_eq_Inr)
  from Cons.prems(2) [OF _ y] have "P x y" by simp
  moreover have "list_all2 P xs ys'"
  proof (rule Cons.IH [OF rest])
    fix x' j k z k'
    assume "x' \<in> set xs" "f x' j k = Inr (z, k')"
    then show "P x' z"
      using Cons.prems(2) [of x' j k z k'] by simp
  qed
  ultimately show ?case using ys by simp
qed

lemma environmentResult_variables:
  assumes "environmentResult e k = Inr (env, k')"
  shows "map var_name (env_variables env) = map fst (flattenedData e)"
    and "list_all (\<lambda>v. var_enabled v \<and> \<not> var_secret v \<and> var_type v = ''text'')
           (env_variables env)"
    and "env_name env = fld e ''name''"
proof -
  from assms obtain vars m where
    vars: "map_from (\<lambda>e i. variableEntry e) 0 (flattenedData e) k = Inr (vars, m)"
    and env: "env = \<lparr>env_uid = m, env_name = fld e ''name'', env_variables = vars\<rparr>"
    by (auto simp: environmentResult_def gen_bind_eq_Inr ret_eq_Inr uuid_eq_Inr)
  have "list_all2 (\<lambda>x v. var_name v = fst x \<and> var_enabled v \<and> \<not> var_secret v
                        \<and> var_type v = ''text'') (flattenedData e) vars"
  proof (rule map_from_props [OF vars])
    fix x :: "string \<times> json" and j m v m'
    assume "variableEntry x m = Inr (v, m')"
    then show "var_name v = fst x \<and> var_enabled v \<and> \<not> var_secret v \<and> var_type v = ''text''"
      by (cases x)
         (auto simp: variableEntry_def gen_bind_eq_Inr lift_eq_Inr ebind_eq_Inr uuid_eq_Inr)
  qed
  then have "map var_name vars = map fst (flattenedData e)"
    and "list_all (\<lambda>v. var_enabled v \<and> \<not> var_secret v \<and> var_type v = ''text'') vars"
    by (induction rule: list_all2_induct) auto
  with env show "map var_name (env_variables env) = map fst (flattenedData e)"
    and "list_all (\<lambda>v. var_enabled v \<and> \<not> var_secret v \<and> var_type v = ''text'')
           (env_variables env)"
    and "env_name env = fld e ''name''"
    by simp_all
qed

lemma reduce_preorder:
  assumes "reduce (\<lambda>result x. gen_bind (g x) (\<lambda>r. gen_bind (h x) (\<lambda>c. ret (result @ r # c))))
             xs acc n = Inr (res, n')"
    and "\<And>x m r m'. x \<in> set xs \<Longrightarrow> g x m = Inr (r, m') \<Longrightarrow> R r x"
    and "\<And>x m c m'. x \<in> set xs \<Longrightarrow> h x m = Inr (c, m') \<Longrightarrow> list_all2 R c (sub x)"
  shows "\<exists>more. res = acc @ more \<and> list_all2 R more (concat (map (\<lambda>x. x # sub x) xs))"
  using assms
proof (induction xs arbitrary: acc n)
  case Nil
  then show ?case by (simp add: ret_eq_Inr)
next
  case (Cons x xs)
  from Cons.prems(1) obtain r c m1 m2 where
    r: "g x n = Inr (r, m1)" and c: "h x m1 = Inr (c, m2)"
    and rest: "reduce (\<lambda>result x. gen_bind (g x) (\<lambda>r. gen_bind (h x) (\<lambda>c. ret (result @ r # c))))
                 xs (acc @ r # c) m2 = Inr (res, n')"
    unfolding reduce.simps gen_bind_eq_Inr ret_eq_Inr by blast
  have "\<exists>more. res = (acc @ r # c) @ more
          \<and> list_all2 R more (concat (map (\<lambda>x. x # sub x) xs))"
  proof (rule Cons.IH [OF rest])
    fix x' m r' m'
    assume "x' \<in> set xs" "g x' m = Inr (r', m')"
    then show "R r' x'" using Cons.prems(2) [of x' m r' m'] by simp
  next
    fix x' m c' m'
    assume "x' \<in> set xs" "h x' m = Inr (c', m')"
    then show "list_all2 R c' (sub x')" using Cons.prems(3) [of x' m c' m'] by simp
  qed
  then obtain more where more: "res = (acc @ r # c) @ more"
    "list_all2 R more (concat (map (\<lambda>x. x # sub x) xs))"
    by blast
  from Cons.prems(2) [OF _ r] have "R r x" by simp
  moreover from Cons.prems(3) [OF _ c] have "list_all2 R c (sub x)" by simp
  ultimately have "list_all2 R (r # c @ more) (concat (map (\<lambda>x. x # sub x) (x # xs)))"
    using more(2) by (simp add: list_all2_appendI)
  with more(1) show ?case
    by (intro exI [of _ "r # c @ more"]) simp
qed

lemma createEnvironments_preorder:
  "createEnvironments depth resources parentId k = Inr (envs, k') \<Longrightarrow>
     list_all2 transformsTo envs (envPreorder depth resources parentId)"
proof (induction depth arbitrary: parentId k envs k')
  case 0
  then show ?case by (simp add: raise_def)
next
  case (Suc depth)
  let ?level = "filter (\<lambda>resource. isType ''environment'' resource
                          \<and> childOf (defaultNull parentId) resource) resources"
  from Suc.prems
  have run: "reduce (\<lambda>result x. gen_bind (environmentResult x) (\<lambda>r.
                 gen_bind (createEnvironments depth resources (fld x ''_id''))
                   (\<lambda>c. ret (result @ r # c)))) ?level [] k = Inr (envs, k')"
    by (simp add: Let_def)
  have "\<exists>more. envs = [] @ more
          \<and> list_all2 transformsTo more
               (concat (map (\<lambda>x. x # envPreorder depth resources (fld x ''_id'')) ?level))"
  proof (rule reduce_preorder [OF run])
    fix x m r m'
    assume "environmentResult x m = Inr (r, m')"
    then show "transformsTo r x"
      by (auto simp: transformsTo_def)
  next
    fix x m c m'
    assume "createEnvironments depth resources (fld x ''_id'') m = Inr (c, m')"
    then show "list_all2 transformsTo c (envPreorder depth resources (fld x ''_id''))"
      by (rule Suc.IH)
  qed
  then show ?case
    by simp
qed

text \<open>
  Claim C7. The data \<^verbatim>\<open>{a: {b: 1, c: 2}}\<close> flattens to exactly the two entries a_b and
  a_c, and the environment gets the two variables a_b = 1 and a_c = 2 as text, enabled and
  not secret. For every environment that is transformed, the variable names are the keys
  of the flattened data, and every variable is enabled, not secret and of type text.
  Whenever \<open>createEnvironments\<close> returns, its output lists the environments in pre-order:
  element by element it is the transform of the pre-order listing of the environment
  resources, so the environments parented to an environment follow it directly, before its
  next sibling.
\<close>

theorem environments_flattened_in_preorder:
  "flattenedData abEnvironment = [(''a_b'', JNum 1), (''a_c'', JNum 2)]
   \<and> environmentResult abEnvironment n =
       Inr (\<lparr>env_uid = Suc (Suc n), env_name = JStr ''Base'',
             env_variables =
               [\<lparr>var_uid = n, var_name = ''a_b'', var_value = ''1'', var_enabled = True,
                 var_secret = False, var_type = ''text''\<rparr>,
                \<lparr>var_uid = Suc n, var_name = ''a_c'', var_value = ''2'', var_enabled = True,
                 var_secret = False, var_type = ''text''\<rparr>]\<rparr>,
            Suc (Suc (Suc n)))
   \<and> (environmentResult e k = Inr (env, k') \<longrightarrow>
        env_name env = fld e ''name''
        \<and> map var_name (env_variables env) = map fst (flattenedData e)
        \<and> list_all (\<lambda>v. var_enabled v \<and> \<not> var_secret v \<and> var_type v = ''text'')
             (env_variables env))
   \<and> (createEnvironments depth resources parentId k = Inr (envs, k') \<longrightarrow>
        list_all2 transformsTo envs (envPreorder depth resources parentId))"
proof (intro conjI impI)
  show "flattenedData abEnvironment = [(''a_b'', JNum 1), (''a_c'', JNum 2)]"
    by code_simp
qed (simp_all add: abEnvironment_result environmentResult_variables
       createEnvironments_preorder)

theorem environments_flattened_in_preorder_witness:
  "\<exists>envs k'. createEnvironments 3 forestExport (JStr ''wrk_1'') 0 = Inr (envs, k')
      \<and> map env_name envs = [JStr ''Base'', JStr ''Staging'', JStr ''Other'']
      \<and> envPreorder 3 forestExport (JStr ''wrk_1'')
           = [forestExport ! 0, forestExport ! 2, forestExport ! 1]
      \<and> list_all2 transformsTo envs (envPreorder 3 forestExport (JStr ''wrk_1''))"
proof -
  have "case createEnvironments 3 forestExport (JStr ''wrk_1'') 0 of
          Inl err \<Rightarrow> False
        | Inr (envs, k') \<Rightarrow>
            map env_name envs = [JStr ''Base'', JStr ''Staging'', JStr ''Other'']"
    by code_simp
  then obtain envs k' where
    run: "createEnvironments 3 forestExport (JStr ''wrk_1'') 0 = Inr (envs, k')"
    and names: "map env_name envs = [JStr ''Base'', JStr ''Staging'', JStr ''Other'']"
    by (auto split: sum.splits)
  have order: "envPreorder 3 forestExport (JStr ''wrk_1'')
                 = [forestExport ! 0, forestExport ! 2, forestExport ! 1]"
    by code_simp
  from environments_flattened_in_preorder
         [where depth = 3 and resources = forestExport and parentId = "JStr ''wrk_1''"
            and k = 0 and envs = envs and k' = k'] run
  have "list_all2 transformsTo envs (envPreorder 3 forestExport (JStr ''wrk_1''))"
    by blast
  with run names order show ?thesis
    by - (rule exI [of _ envs], rule exI [of _ k'], simp)
qed

lemma map_from_fails:
  assumes "x \<in> set xs" and "\<And>j m. \<exists>err. f x j m = Inl err"
  shows "\<exists>err. map_from f i xs n = Inl err"
  using assms(1)
proof (induction xs arbitrary: i n)
  case Nil
  then show ?case by simp
next
  case (Cons y ys)
  show ?case
  proof (cases "f y i n")
    case (Inl err)
    then show ?thesis by (simp add: gen_bind_def)
  next
    case (Inr r)
    obtain z m where r: "r = (z, m)" by (cases r)
    show ?thesis
    proof (cases "x = y")
      case True
      with assms(2) [of i n] Inr show ?thesis by simp
    next
      case False
      with Cons.prems have "x \<in> set ys" by simp
      from Cons.IH [OF this, of "Suc i" m] obtain err where
        "map_from f (Suc i) ys m = Inl err" by blast
      with Inr r show ?thesis by (simp add: gen_bind_def)
    qed
  qed
qed

lemma reduce_fails:
  assumes "x \<in> set xs" and "\<And>acc m. \<exists>err. f acc x m = Inl err"
  shows "\<exists>err. reduce f xs acc n = Inl err"
  using assms(1)
proof (induction xs arbitrary: acc n)
  case Nil
  then show ?case by simp
next
  case (Cons y ys)
  show ?case
  proof (cases "f acc y n")
    case (Inl err)
    then show ?thesis by (simp add: gen_bind_def)
  next
    case (Inr r)
    obtain acc' m where r: "r = (acc', m)" by (cases r)
    show ?thesis
    proof (cases "x = y")
      case True
      with assms(2) [of acc n] Inr show ?thesis by simp
    next
      case False
      with Cons.prems have "x \<in> set ys" by simp
      from Cons.IH [OF this, of acc' m] obtain err where
        "reduce f ys acc' m = Inl err" by blast
      with Inr r show ?thesis by (simp add: gen_bind_def)
    qed
  qed
qed

lemma variableEntry_nullish: "nullish v \<Longrightarrow> variableEntry (key, v) m = Inl TypeError"
  by (auto simp: nullish_def variableEntry_def gen_bind_def uuid_def lift_def ebind_def
        toString_def)

lemma environmentResult_nullish:
  assumes "hasNullish e"
  shows "\<exists>err. environmentResult e m = Inl err"
proof -
  from assms obtain key v where kv: "(key, v) \<in> set (flattenedData e)" "nullish v"
    by (auto simp: hasNullish_def list_ex_iff)
  have "\<exists>err. map_from (\<lambda>e i. variableEntry e) 0 (flattenedData e) m = Inl err"
    using kv(1)
  proof (rule map_from_fails)
    fix j k
    from kv(2) show "\<exists>err. variableEntry (key, v) k = Inl err"
      by (simp add: variableEntry_nullish)
  qed
  then show ?thesis
    by (auto simp: environmentResult_def gen_bind_def)
qed

lemma createEnvironments_fails:
  assumes "envReach resources parentId e" "hasNullish e"
  shows "\<exists>err. createEnvironments depth resources parentId m = Inl err"
  using assms
proof (induction arbitrary: depth m rule: envReach.induct)
  case (direct e parentId)
  show ?case
  proof (cases depth)
    case 0
    then show ?thesis by (simp add: raise_def)
  next
    case (Suc d)
    from direct.hyps have "e \<in> set (filter (\<lambda>resource. isType ''environment'' resource
                          \<and> childOf (defaultNull parentId) resource) resources)"
      by simp
    then have "\<exists>err. reduce (\<lambda>result x. gen_bind (environmentResult x) (\<lambda>r.
                 gen_bind (createEnvironments d resources (fld x ''_id''))
                   (\<lambda>c. ret (result @ r # c))))
               (filter (\<lambda>resource. isType ''environment'' resource
                          \<and> childOf (defaultNull parentId) resource) resources) [] m = Inl err"
    proof (rule reduce_fails)
      fix acc :: "environment list" and k
      from environmentResult_nullish [OF direct.prems, of k] obtain err where
        "environmentResult e k = Inl err" by blast
      then show "\<exists>err. gen_bind (environmentResult e) (\<lambda>r.
                 gen_bind (createEnvironments d resources (fld e ''_id''))
                   (\<lambda>c. ret (acc @ r # c))) k = Inl err"
        by (simp add: gen_bind_Inl)
    qed
    with Suc show ?thesis by (simp add: Let_def)
  qed
next
  case (nested p parentId e)
  show ?case
  proof (cases depth)
    case 0
    then show ?thesis by (simp add: raise_def)
  next
    case (Suc d)
    from nested.hyps have "p \<in> set (filter (\<lambda>resource. isType ''environment'' resource
                          \<and> childOf (defaultNull parentId) resource) resources)"
      by simp
    then have "\<exists>err. reduce (\<lambda>result x. gen_bind (environmentResult x) (\<lambda>r.
                 gen_bind (createEnvironments d resources (fld x ''_id''))
                   (\<lambda>c. ret (result @ r # c))))
               (filter (\<lambda>resource. isType ''environment'' resource
                          \<and> childOf (defaultNull parentId) resource) resources) [] m = Inl err"
    proof (rule reduce_fails)
      fix acc :: "environment list" and k
      show "\<exists>err. gen_bind (environmentResult p) (\<lambda>r.
                 gen_bind (createEnvironments d resources (fld p ''_id''))
                   (\<lambda>c. ret (acc @ r # c))) k = Inl err"
      proof (cases "environmentResult p k")
        case (Inl err)
        then show ?thesis by (simp add: gen_bind_def)
      next
        case (Inr r)
        obtain env k1 where r: "r = (env, k1)" by (cases r)
        from nested.IH [OF nested.prems, of d k1] obtain err where
          "createEnvironments d resources (fld p ''_id'') k1 = Inl err" by blast
        with Inr r show ?thesis by (simp add: gen_bind_def)
      qed
    qed
    with Suc show ?thesis by (simp add: Let_def)
  qed
qed

lemma envReach_environments:
  "envReach resources parentId e \<Longrightarrow>
     envReach (filter (isType ''environment'') resources) parentId e"
  by (induction rule: envReach.induct) (auto intro: envReach.intros)

lemma find_map_option: "find P (map f xs) = map_option f (find (\<lambda>x. P (f x)) xs)"
  by (induction xs) simp_all

lemma properties_objects: "map properties (map JObj xs) = xs"
  by (induction xs) (simp_all add: properties_def)

lemma find_from_clean:
  "list_all (\<lambda>r. \<not> nullish r) rs \<Longrightarrow>
     find_from (hasType t) rs
       = Inr (case find (\<lambda>r. isType t (properties r)) rs of None \<Rightarrow> JUndefined | Some r \<Rightarrow> r)"
  by (induction rs) (simp_all add: hasType_properties ebind_def)

lemma find_from_object:
  "find_from (hasType t) rs = Inr x \<Longrightarrow> list_ex nullish rs \<Longrightarrow> \<exists>kvs. x = JObj kvs"
proof (induction rs)
  case Nil
  then show ?case by simp
next
  case (Cons r rs)
  show ?case
  proof (cases "nullish r")
    case True
    with Cons.prems(1) show ?thesis
      by (simp add: hasType_nullish ebind_def)
  next
    case False
    show ?thesis
    proof (cases "isType t (properties r)")
      case True
      from isType_properties_object [OF True] Cons.prems(1) False True show ?thesis
        by (auto simp: hasType_properties ebind_def)
    next
      case no: False
      with Cons False show ?thesis
        by (simp add: hasType_properties ebind_def)
    qed
  qed
qed

lemma filter_from_clean:
  assumes "list_all (\<lambda>r. \<not> nullish r) rs"
    and "\<And>r. \<not> nullish r \<Longrightarrow> p r = Inr (q (properties r))"
  shows "filter_from p rs = Inr (filter (\<lambda>r. q (properties r)) rs)"
  using assms(1) by (induction rs) (simp_all add: assms(2) ebind_def)

lemma filter_from_raises:
  "list_ex nullish rs \<Longrightarrow> filter_from requestOrFolder rs = Inl TypeError"
proof (induction rs)
  case Nil
  then show ?case by simp
next
  case (Cons r rs)
  show ?case
  proof (cases "nullish r")
    case True
    then show ?thesis by (simp add: requestOrFolder_nullish ebind_def)
  next
    case False
    with Cons show ?thesis by (simp add: requestOrFolder_properties ebind_def)
  qed
qed

lemma filtered_resources_are_objects:
  assumes "filter_from (hasType t) rs = Inr ys"
  shows "list_all (\<lambda>y. y = JObj (properties y)) ys"
  using assms
proof (induction rs arbitrary: ys)
  case Nil
  then show ?case by simp
next
  case (Cons r rs)
  show ?case
  proof (cases "nullish r")
    case True
    with Cons.prems show ?thesis by (simp add: hasType_nullish ebind_def)
  next
    case False
    from Cons.prems False obtain zs where
      zs: "filter_from (hasType t) rs = Inr zs"
      and ys: "ys = (if isType t (properties r) then r # zs else zs)"
      by (auto simp: hasType_properties ebind_def split: sum.splits)
    from Cons.IH [OF zs] ys isType_properties_object [of t r] show ?thesis
      by auto
  qed
qed

lemma filtered_requests_are_objects:
  assumes "filter_from requestOrFolder rs = Inr ys"
  shows "list_all (\<lambda>y. y = JObj (properties y)) ys"
  using assms
proof (induction rs arbitrary: ys)
  case Nil
  then show ?case by simp
next
  case (Cons r rs)
  show ?case
  proof (cases "nullish r")
    case True
    with Cons.prems show ?thesis by (simp add: requestOrFolder_nullish ebind_def)
  next
    case False
    from Cons.prems False obtain zs where
      zs: "filter_from requestOrFolder rs = Inr zs"
      and ys: "ys = (if isType ''request'' (properties r) \<or> isType ''request_group'' (properties r)
                     then r # zs else zs)"
      by (auto simp: requestOrFolder_properties ebind_def split: sum.splits)
    from Cons.IH [OF zs] ys isType_properties_object [of "''request''" r]
      isType_properties_object [of "''request_group''" r]
    show ?thesis
      by auto
  qed
qed

text \<open>
  Claim C10, as amended. The claim speaks of any environment resource; the code visits only
  the environments reachable from the workspace that \<^verbatim>\<open>find\<close> returns, through
  \<^verbatim>\<open>parentId\<close>. If such an environment has a \<^verbatim>\<open>null\<close> or \<^verbatim>\<open>undefined\<close> value in its
  flattened data, then for every document whose \<^verbatim>\<open>resources\<close> is an array, every engine,
  call depth and counter state, the conversion rejects with the message of the \<^verbatim>\<open>catch\<close>
  clause: \<^verbatim>\<open>value.toString()\<close> raises (or an earlier environment raises, or an element of
  the array is \<^verbatim>\<open>null\<close>, or the call depth is exceeded), and nothing is resolved. The
  workspace is the first element of the array whose type is workspace.
\<close>

theorem reachable_null_value_rejects:
  assumes "get data ''resources'' (JArr []) = JArr rs"
    and "find (isType ''workspace'') (map properties rs) = Some workspace"
    and "envReach (map properties rs) (fld workspace ''_id'') e"
    and "hasNullish e"
  shows "parseInsomniaCollection E depth data n = Some (Rejected parsingErrorMessage)"
proof (cases "list_ex nullish rs")
  case True
  show ?thesis
  proof (cases "find_from (hasType ''workspace'') rs")
    case (Inl err)
    with assms(1) show ?thesis
      by (simp add: parseInsomniaCollection_def array_find_def settle_def)
  next
    case (Inr x)
    from find_from_object [OF Inr True] obtain kvs where x: "x = JObj kvs"
      by blast
    from True have "array_filter requestOrFolder (JArr rs) = Inl TypeError"
      by (simp add: array_filter_def filter_from_raises)
    then have "convert E depth (JArr rs) (JObj kvs) c k = Inl TypeError" for c k
      by (simp add: convert_def gen_bind_def lift_def)
    with assms(1) Inr x show ?thesis
      by (simp add: parseInsomniaCollection_def array_find_def settle_def)
  qed
next
  case False
  then have clean: "list_all (\<lambda>r. \<not> nullish r) rs"
    by (simp add: list_ex_iff list_all_iff)
  from assms(2) obtain r where
    r: "find (\<lambda>r. isType ''workspace'' (properties r)) rs = Some r"
    and w: "properties r = workspace"
    by (auto simp: find_map_option)
  from r have "isType ''workspace'' (properties r)"
    by (auto simp: find_Some_iff)
  from isType_properties_object [OF this] w have obj: "r = JObj workspace"
    by simp
  from clean r obj have found: "find_from (hasType ''workspace'') rs = Inr (JObj workspace)"
    by (simp add: find_from_clean)
  from clean have folders: "filter_from requestOrFolder rs
      = Inr (filter (\<lambda>r. isType ''request'' (properties r)
                          \<or> isType ''request_group'' (properties r)) rs)"
    by (rule filter_from_clean) (rule requestOrFolder_properties)
  from clean have envs: "filter_from (hasType ''environment'') rs
      = Inr (filter (\<lambda>r. isType ''environment'' (properties r)) rs)"
    by (rule filter_from_clean) (rule hasType_properties)
  have "map properties (filter (\<lambda>r. isType ''environment'' (properties r)) rs)
          = filter (isType ''environment'') (map properties rs)"
    by (simp add: filter_map comp_def)
  moreover from envReach_environments [OF assms(3)] assms(4)
  have "\<exists>err. createEnvironments depth (filter (isType ''environment'') (map properties rs))
                 (fld workspace ''_id'') (Suc n) = Inl err"
    by (rule createEnvironments_fails)
  ultimately obtain err where
    "createEnvironments depth
       (map properties (filter (\<lambda>r. isType ''environment'' (properties r)) rs))
       (fld workspace ''_id'') (Suc n) = Inl err"
    by auto
  with folders envs have "\<exists>err. convert E depth (JArr rs) (JObj workspace) c (Suc n) = Inl err"
    for c
    by (simp add: convert_def array_filter_def gen_bind_def lift_def)
  then obtain err' where
    "convert E depth (JArr rs) (JObj workspace)
       \<lparr>col_name = JStr [], col_uid = n, col_version = ''1'', col_items = [],
        col_environments = []\<rparr> (Suc n) = Inl err'"
    by blast
  with assms(1) found show ?thesis
    by (simp add: parseInsomniaCollection_def array_find_def settle_def)
qed

theorem reachable_null_value_rejects_witness:
  "get (document nestedExport) ''resources'' (JArr []) = JArr (map JObj nestedExport)
   \<and> find (isType ''workspace'') (map properties (map JObj nestedExport))
       = Some (nestedExport ! 0)
   \<and> envReach (map properties (map JObj nestedExport)) (fld (nestedExport ! 0) ''_id'')
        (nestedExport ! 2)
   \<and> hasNullish (nestedExport ! 2)
   \<and> parseInsomniaCollection nullEngine 5 (document nestedExport) 0
       = Some (Rejected ''An error occurred while parsing the Insomnia collection'')"
proof -
  have d: "get (document nestedExport) ''resources'' (JArr []) = JArr (map JObj nestedExport)"
    by code_simp
  have w: "find (isType ''workspace'') nestedExport = Some (nestedExport ! 0)"
    by code_simp
  have m1: "nestedExport ! 1 \<in> set nestedExport" and m2: "nestedExport ! 2 \<in> set nestedExport"
    by (simp_all add: nestedExport_def)
  have t1: "isType ''environment'' (nestedExport ! 1)"
    and c1: "childOf (defaultNull (fld (nestedExport ! 0) ''_id'')) (nestedExport ! 1)"
    and t2: "isType ''environment'' (nestedExport ! 2)"
    and c2: "childOf (defaultNull (fld (nestedExport ! 1) ''_id'')) (nestedExport ! 2)"
    and h: "hasNullish (nestedExport ! 2)"
    by code_simp+
  from m2 t2 c2 have "envReach nestedExport (fld (nestedExport ! 1) ''_id'') (nestedExport ! 2)"
    by (rule envReach.direct)
  with m1 t1 c1 have r: "envReach nestedExport (fld (nestedExport ! 0) ''_id'') (nestedExport ! 2)"
    by (rule envReach.nested)
  from reachable_null_value_rejects
         [where data = "document nestedExport" and rs = "map JObj nestedExport"
            and workspace = "nestedExport ! 0" and e = "nestedExport ! 2"
            and E = nullEngine and depth = 5 and n = 0, unfolded properties_objects]
       d w r h
  have "parseInsomniaCollection nullEngine 5 (document nestedExport) 0
          = Some (Rejected ''An error occurred while parsing the Insomnia collection'')"
    by (simp add: parsingErrorMessage_def)
  with d w r h show ?thesis
    unfolding properties_objects by blast
qed

text \<open>
  The claim as stated fails: in \<open>orphanExport\<close> an environment resource holds a \<^verbatim>\<open>null\<close>
  value, but it belongs to the second workspace, is never visited, and the conversion
  resolves.
\<close>

theorem unreachable_null_value_resolves:
  "list_ex (\<lambda>e. isType ''environment'' e \<and> hasNullish e) orphanExport
   \<and> parseInsomniaCollection nullEngine 3 (document orphanExport) 0 =
       Some (Resolved \<lparr>col_name = JStr ''First'', col_uid = 0, col_version = ''1'',
                       col_items = [], col_environments = []\<rparr>)"
  by code_simp

end
